theory Spec2Isabelle
  imports
    Main
    "HOL-Library.Sublist"
    "HOL-Library.Char_ord"
    "HOL-Library.List_Lexorder"
    "HOL-Library.Product_Lexorder"
    "HOL-Library.AList"
    "HOL-Library.Multiset"
begin

section \<open>Python strings\<close>

text \<open>
  A Python \<open>str\<close> is modelled as a \<open>string\<close> whose characters stand for the code points
  below 256. With \<open>HOL-Library.Char_ord\<close> and \<open>HOL-Library.List_Lexorder\<close> the order on
  \<open>string\<close> is the lexicographic order by code point, which is the order Python's
  \<open>sorted\<close> and \<open>list.sort\<close> use on \<open>str\<close>.
\<close>

definition newline :: char where
  "newline = CHR 0x0A"

definition sq :: char where
  "sq = CHR 0x27"

definition dq :: char where
  "dq = CHR 0x22"

text \<open>\<open>str.isspace\<close> on one character, for the code points below 256.\<close>

definition py_isspace :: "char \<Rightarrow> bool" where
  "py_isspace c \<longleftrightarrow>
     c \<in> set [CHR 0x09, CHR 0x0A, CHR 0x0B, CHR 0x0C, CHR 0x0D,
                CHR 0x1C, CHR 0x1D, CHR 0x1E, CHR 0x1F, CHR 0x20, CHR 0x85, CHR 0xA0]"

text \<open>\<open>s.lstrip()\<close>, \<open>s.rstrip()\<close> and \<open>s.strip()\<close> with no argument.\<close>

definition lstrip :: "string \<Rightarrow> string" where
  "lstrip s = dropWhile py_isspace s"

definition rstrip :: "string \<Rightarrow> string" where
  "rstrip s = rev (dropWhile py_isspace (rev s))"

definition strip :: "string \<Rightarrow> string" where
  "strip s = rstrip (lstrip s)"

text \<open>\<open>sep.join(xs)\<close>.\<close>

fun join :: "string \<Rightarrow> string list \<Rightarrow> string" where
  "join sep [] = []"
| "join sep [x] = x"
| "join sep (x # y # ys) = x @ sep @ join sep (y # ys)"

text \<open>\<open>x in s\<close> for two strings: \<open>x\<close> occurs in \<open>s\<close> as a contiguous substring.\<close>

fun py_in :: "string \<Rightarrow> string \<Rightarrow> bool" where
  "py_in x [] \<longleftrightarrow> x = []"
| "py_in x (c # cs) \<longleftrightarrow> prefix x (c # cs) \<or> py_in x cs"

section \<open>helper.py: the PyPI existence probe\<close>

text \<open>
  The exceptions a call can raise, all of them subclasses of \<open>Exception\<close>:
  \<open>requests.exceptions.RequestException\<close> (connection errors, timeouts),
  its subclass \<open>requests.exceptions.HTTPError\<close>, \<open>SyntaxError\<close>, \<open>AttributeError\<close>,
  and any other exception.
\<close>

datatype py_exception = RequestException | HTTPError | SyntaxError | AttributeError | OtherException

record response =
  status_code :: int

text \<open>
  \<open>Response.raise_for_status\<close> of the \<open>requests\<close> library: it raises \<open>HTTPError\<close> for a
  client error (400 to 499) or a server error (500 to 599) and returns otherwise.
\<close>

definition raise_for_status :: "response \<Rightarrow> py_exception + unit" where
  "raise_for_status r =
     (if 400 \<le> status_code r \<and> status_code r < 500 then Inl HTTPError
      else if 500 \<le> status_code r \<and> status_code r < 600 then Inl HTTPError
      else Inr ())"

definition pypi_url :: "string \<Rightarrow> string" where
  "pypi_url pkg = ''https://pypi.org/pypi/'' @ pkg @ ''/json''"

text \<open>
  \<open>is_on_pypi\<close>. The network is the parameter \<open>get\<close>: \<open>get url timeout\<close> is the outcome of
  \<open>requests.get(url, timeout=timeout)\<close>, a response or a raised exception. The body of the
  \<open>try\<close> is \<open>is_on_pypi_try\<close>; the two \<open>except\<close> clauses are the cases of the handler.
\<close>

definition is_on_pypi_try :: "(string \<Rightarrow> nat \<Rightarrow> py_exception + response) \<Rightarrow> string \<Rightarrow> py_exception + bool" where
  "is_on_pypi_try get pkg =
     (case get (pypi_url pkg) 5 of
        Inl e \<Rightarrow> Inl e
      | Inr r \<Rightarrow> (case raise_for_status r of Inl e \<Rightarrow> Inl e | Inr _ \<Rightarrow> Inr True))"

definition is_on_pypi :: "(string \<Rightarrow> nat \<Rightarrow> py_exception + response) \<Rightarrow> string \<Rightarrow> py_exception + bool" where
  "is_on_pypi get pkg =
     (case is_on_pypi_try get pkg of
        Inr b \<Rightarrow> Inr b
      | Inl e \<Rightarrow>
          if e = RequestException \<or> e = HTTPError then Inr False
          else Inr False)"

section \<open>The syntax tree\<close>

text \<open>
  The part of Python's \<open>ast\<close> the analysed functions look at. A constant is a string
  literal or any other literal; an expression is a name, an attribute access, a call
  (function, positional arguments, keywords as pairs of an optional argument name and a
  value) or a constant; every other expression is \<open>OtherExpr\<close>. The payload of
  \<open>OtherConst\<close> and \<open>OtherExpr\<close> is the text \<open>ast.unparse\<close> gives for the node.
\<close>

datatype py_constant = StrConst string | OtherConst string

datatype expr =
    Name string
  | Attribute expr string
  | Call expr "expr list" "(string option \<times> expr) list"
  | Constant py_constant
  | OtherExpr string

datatype import_alias = Alias (alias_name: string) (alias_asname: "string option")

text \<open>
  Statements: \<open>Import names\<close>, \<open>ImportFrom module names level\<close>, \<open>Assign targets value\<close>,
  the three definition statements with their name and body, and \<open>OtherStmt\<close> for every
  other statement, with the statements nested in it (the bodies of \<open>if\<close>, \<open>for\<close>,
  \<open>while\<close>, \<open>with\<close>, \<open>try\<close>, \<open>match\<close>; none for a simple statement).
\<close>

datatype stmt =
    Import "import_alias list"
  | ImportFrom "string option" "import_alias list" nat
  | Assign "expr list" expr
  | FunctionDef string "stmt list"
  | AsyncFunctionDef string "stmt list"
  | ClassDef string "stmt list"
  | OtherStmt "stmt list"

datatype module_ast = Module "stmt list"

text \<open>
  \<open>ast.unparse\<close> on the expressions above: a name is itself, a string literal is rendered
  by \<open>repr\<close> (in single quotes, for a literal with no quote, backslash or control
  character), a call is \<open>f(a, b, k=v)\<close>.
\<close>

fun unparse_expr :: "expr \<Rightarrow> string" where
  "unparse_expr (Name n) = n"
| "unparse_expr (Attribute v a) = unparse_expr v @ ''.'' @ a"
| "unparse_expr (Call f args keywords) =
     unparse_expr f @ ''('' @
     join '', '' (map unparse_expr args @
                  map (\<lambda>kw. (case fst kw of None \<Rightarrow> ''**'' | Some a \<Rightarrow> a @ ''='') @ unparse_expr (snd kw)) keywords)
     @ '')''"
| "unparse_expr (Constant (StrConst s)) = sq # s @ [sq]"
| "unparse_expr (Constant (OtherConst t)) = t"
| "unparse_expr (OtherExpr t) = t"

text \<open>
  \<open>ast.unparse\<close> on the three simple statements: \<open>import a.b as c, d\<close>,
  \<open>from ..m import a as b, c\<close> and \<open>t1 = t2 = value\<close>. A compound statement is not
  rendered by this function (its text is left empty): the examples below unparse simple
  statements only.
\<close>

definition unparse_alias :: "import_alias \<Rightarrow> string" where
  "unparse_alias a =
     (case alias_asname a of None \<Rightarrow> alias_name a | Some x \<Rightarrow> alias_name a @ '' as '' @ x)"

definition unparse_simple :: "stmt \<Rightarrow> string" where
  "unparse_simple s =
     (case s of
        Import ns \<Rightarrow> ''import '' @ join '', '' (map unparse_alias ns)
      | ImportFrom m ns l \<Rightarrow>
          ''from '' @ replicate l (CHR ''.'') @ (case m of None \<Rightarrow> [] | Some x \<Rightarrow> x)
          @ '' import '' @ join '', '' (map unparse_alias ns)
      | Assign targets v \<Rightarrow> join '' = '' (map unparse_expr (targets @ [v]))
      | _ \<Rightarrow> [])"

section \<open>visitors/imported.py: the import collector\<close>

text \<open>
  Modelled from the spec: the \<open>ImportItem\<close> dataclass (\<open>deph/types\<close> is not among the
  sources). Its fields, in the order of the constructor calls of \<open>imported.py\<close>: the
  mapping from local alias to original name (a dict, kept as an association list in
  insertion order), the top-level module segment, the distribution name, the remaining
  sub-module path, the source code of the statement, the relative level, and the two
  flags. \<open>None\<close> is Python's \<open>None\<close>.
\<close>

record ImportItem =
  names :: "(string \<times> string) list"
  module :: "string option"
  package_name :: "string option"
  submodule :: "string option"
  code :: string
  level :: "nat option"
  is_dynamic :: bool
  use_star :: bool

text \<open>
  What the collector and the isolator read from their surroundings:
  \<^item> \<open>is_stdlib\<close>: the answer of \<open>helper.is_stdlib\<close> (membership in
    \<open>sys.stdlib_module_names\<close>, or the path check of older interpreters);
  \<^item> \<open>PACKAGE_DISTRIBUTIONS\<close>: the table \<open>helper.PACKAGE_DISTRIBUTIONS\<close>;
  \<^item> \<open>unparse\<close>: \<open>ast.unparse\<close> on a statement of the parsed module, which the collector
    calls outside any \<open>try\<close>;
  \<^item> \<open>dedent\<close> and \<open>indent\<close>: \<open>textwrap.dedent\<close> and \<open>textwrap.indent\<close>;
  \<^item> \<open>on_pypi\<close>: the answer of \<open>helper.is_on_pypi\<close> for a name, which depends on the
    network at the time of the call;
  \<^item> \<open>try_unparse\<close>: \<open>ast.unparse\<close> on the node of a definition, \<open>None\<close> when it raises
    (the isolator catches the exception).
\<close>

record environment =
  is_stdlib :: "string \<Rightarrow> bool"
  PACKAGE_DISTRIBUTIONS :: "string \<rightharpoonup> string"
  unparse :: "stmt \<Rightarrow> string"
  dedent :: "string \<Rightarrow> string"
  indent :: "string \<Rightarrow> string \<Rightarrow> string"
  on_pypi :: "string \<Rightarrow> bool"
  try_unparse :: "stmt \<Rightarrow> string option"

text \<open>The three lists an \<open>ImportCollector\<close> holds.\<close>

record collector =
  imported_alias :: "string list"
  import_items :: "ImportItem list"
  dynamic_ref :: "string list"

definition collector_init :: collector where
  "collector_init = \<lparr>imported_alias = [], import_items = [], dynamic_ref = []\<rparr>"

text \<open>\<open>s.split('.', 1)\<close>: at most one split, at the first dot.\<close>

definition split_dot1 :: "string \<Rightarrow> string list" where
  "split_dot1 s =
     (if CHR ''.'' \<in> set s
      then [takeWhile (\<lambda>c. c \<noteq> CHR ''.'') s, tl (dropWhile (\<lambda>c. c \<noteq> CHR ''.'') s)]
      else [s])"

definition parse_submodule :: "string \<Rightarrow> string \<times> string option" where
  "parse_submodule m =
     (let splitted_mod = split_dot1 m
      in if length splitted_mod > 1 then (splitted_mod ! 0, Some (splitted_mod ! 1))
         else (m, None))"

definition package_name_of :: "environment \<Rightarrow> string option \<Rightarrow> string option" where
  "package_name_of env module_name =
     (case module_name of
        None \<Rightarrow> None
      | Some m \<Rightarrow>
          if is_stdlib env m then Some m
          else Some (case PACKAGE_DISTRIBUTIONS env m of Some d \<Rightarrow> d | None \<Rightarrow> m))"

text \<open>
  \<open>_parse_alias\<close>: the bound alias is \<open>alias.asname or alias.name\<close>; it is appended to
  \<open>_imported_alias\<close>, and to \<open>_dynamic_ref\<close> when the imported name contains
  \<open>importlib\<close> or \<open>import_module\<close>. The result is the new state and the pair
  \<open>(alias, name)\<close>.
\<close>

definition bound_alias :: "import_alias \<Rightarrow> string" where
  "bound_alias a =
     (case alias_asname a of
        None \<Rightarrow> alias_name a
      | Some x \<Rightarrow> if x \<noteq> [] then x else alias_name a)"

definition parse_alias :: "collector \<Rightarrow> import_alias \<Rightarrow> collector \<times> string \<times> string" where
  "parse_alias st a =
     (let name' = alias_name a;
          alias' = bound_alias a;
          st1 = st\<lparr>imported_alias := imported_alias st @ [alias']\<rparr>;
          st2 = (if py_in ''importlib'' name' \<or> py_in ''import_module'' name'
                 then st1\<lparr>dynamic_ref := dynamic_ref st1 @ [alias']\<rparr> else st1)
      in (st2, alias', name'))"

text \<open>An f-string renders \<open>None\<close> as the text \<open>None\<close>.\<close>

definition format_opt :: "string option \<Rightarrow> string" where
  "format_opt v = (case v of None \<Rightarrow> ''None'' | Some s \<Rightarrow> s)"

text \<open>
  \<open>visit_Import\<close>. The loop over \<open>node.names\<close> carries the state, the dict \<open>names\<close> and
  the pair \<open>(module, submodule)\<close>, which the first alias sets.
\<close>

fun visit_Import_loop ::
  "collector \<Rightarrow> (string \<times> string) list \<Rightarrow> string option \<times> string option \<Rightarrow> nat \<Rightarrow> import_alias list
   \<Rightarrow> collector \<times> (string \<times> string) list \<times> string option \<times> string option" where
  "visit_Import_loop st nm ms i [] = (st, nm, ms)"
| "visit_Import_loop st nm ms i (a # as) =
     (case parse_alias st a of
        (st', asname, name') \<Rightarrow>
          let ms' = (if i = 0
                     then (let m = split_dot1 name'
                           in if length m > 1 then (Some (m ! 0), Some (m ! 1)) else (Some (m ! 0), None))
                     else ms)
          in visit_Import_loop st' (AList.update asname name' nm) ms' (Suc i) as)"

definition visit_Import :: "environment \<Rightarrow> collector \<Rightarrow> stmt \<Rightarrow> import_alias list \<Rightarrow> collector" where
  "visit_Import env st node node_names =
     (case visit_Import_loop st [] (None, None) 0 node_names of
        (st', nm, module', submodule') \<Rightarrow>
          st'\<lparr>import_items := import_items st' @
                [\<lparr>names = nm, module = module', package_name = package_name_of env module',
                  submodule = submodule', code = unparse env node, level = None,
                  is_dynamic = False, use_star = False\<rparr>]\<rparr>)"

text \<open>
  \<open>visit_ImportFrom\<close>. The loop carries the state, the dict \<open>names\<close> and \<open>use_star\<close>; the
  first alias that contains \<open>*\<close> is renamed to \<open>f'{asname}_{module}.{submodule}'\<close>.
\<close>

fun visit_ImportFrom_loop ::
  "string option \<Rightarrow> string option \<Rightarrow> collector \<Rightarrow> (string \<times> string) list \<Rightarrow> bool \<Rightarrow> import_alias list
   \<Rightarrow> collector \<times> (string \<times> string) list \<times> bool" where
  "visit_ImportFrom_loop module' submodule' st nm star [] = (st, nm, star)"
| "visit_ImportFrom_loop module' submodule' st nm star (a # as) =
     (case parse_alias st a of
        (st', asname, name') \<Rightarrow>
          if \<not> star \<and> py_in ''*'' asname
          then visit_ImportFrom_loop module' submodule' st'
                 (AList.update (asname @ ''_'' @ format_opt module' @ ''.'' @ format_opt submodule') name' nm)
                 True as
          else visit_ImportFrom_loop module' submodule' st' (AList.update asname name' nm) star as)"

definition visit_ImportFrom ::
  "environment \<Rightarrow> collector \<Rightarrow> stmt \<Rightarrow> string option \<Rightarrow> import_alias list \<Rightarrow> nat \<Rightarrow> collector" where
  "visit_ImportFrom env st node node_module node_names node_level =
     (let ms = (case node_module of
                  None \<Rightarrow> (None, None)
                | Some m \<Rightarrow> if m \<noteq> [] then (case parse_submodule m of (a, b) \<Rightarrow> (Some a, b))
                            else (None, None))
      in case visit_ImportFrom_loop (fst ms) (snd ms) st [] False node_names of
           (st', nm, star) \<Rightarrow>
             st'\<lparr>import_items := import_items st' @
                   [\<lparr>names = nm, module = fst ms, package_name = package_name_of env (fst ms),
                     submodule = snd ms, code = unparse env node, level = Some node_level,
                     is_dynamic = False, use_star = star\<rparr>]\<rparr>)"

text \<open>
  \<open>_parse_func_name\<close>: the name of the called function is the attribute of an attribute
  access or the identifier of a name; the call is returned when that name is tracked in
  \<open>_dynamic_ref\<close> or contains \<open>__import__\<close> or \<open>import_module\<close>, and the first positional
  argument is a string literal.
\<close>

definition is_str_constant :: "expr \<Rightarrow> bool" where
  "is_str_constant e = (case e of Constant (StrConst s) \<Rightarrow> True | _ \<Rightarrow> False)"

definition parse_func_name :: "collector \<Rightarrow> expr \<Rightarrow> expr option" where
  "parse_func_name st node =
     (case node of
        Call func args keywords \<Rightarrow>
          (case (case func of Attribute v a \<Rightarrow> Some a | Name n \<Rightarrow> Some n | _ \<Rightarrow> None) of
             None \<Rightarrow> None
           | Some func_name \<Rightarrow>
               if func_name \<in> set (dynamic_ref st)
                  \<or> py_in ''__import__'' func_name \<or> py_in ''import_module'' func_name
               then (if args \<noteq> [] \<and> is_str_constant (hd args) then Some node else None)
               else None)
      | _ \<Rightarrow> None)"

text \<open>
  The loop of \<open>visit_Assign\<close> over the keywords: each \<open>package=<string literal>\<close> sets
  \<open>(module, submodule)\<close> anew.
\<close>

fun package_keywords ::
  "string \<times> string option \<Rightarrow> (string option \<times> expr) list \<Rightarrow> string \<times> string option" where
  "package_keywords ms [] = ms"
| "package_keywords ms ((arg, v) # kws) =
     (case v of
        Constant (StrConst pkg_name) \<Rightarrow>
          if arg = Some ''package'' then package_keywords (parse_submodule pkg_name) kws
          else package_keywords ms kws
      | _ \<Rightarrow> package_keywords ms kws)"

definition visit_Assign :: "environment \<Rightarrow> collector \<Rightarrow> stmt \<Rightarrow> expr list \<Rightarrow> expr \<Rightarrow> collector" where
  "visit_Assign env st node targets v =
     (case targets of
        [Name asname] \<Rightarrow>
          (case v of
             Call f a k \<Rightarrow>
               (case parse_func_name st v of
                  Some (Call func args keywords) \<Rightarrow>
                    (case args of
                       Constant (StrConst name') # _ \<Rightarrow>
                         (case package_keywords (parse_submodule name') keywords of
                            (module', submodule') \<Rightarrow>
                              st\<lparr>imported_alias := imported_alias st @ [asname],
                                 import_items := import_items st @
                                   [\<lparr>names = [(asname, name')], module = Some module',
                                     package_name = package_name_of env (Some module'),
                                     submodule = submodule', code = dedent env (unparse env node),
                                     level = None, is_dynamic = True, use_star = False\<rparr>]\<rparr>)
                     | _ \<Rightarrow> st)
                | _ \<Rightarrow> st)
           | _ \<Rightarrow> st)
      | _ \<Rightarrow> st)"

text \<open>
  \<open>NodeVisitor.visit\<close>: a node with a \<open>visit_\<close> method of its class goes to it; every
  other node goes to \<open>generic_visit\<close>, which visits the child nodes in order. Statements
  occur only inside statements, so the walk through expressions collects nothing.
\<close>

fun visit :: "environment \<Rightarrow> collector \<Rightarrow> stmt \<Rightarrow> collector" where
  "visit env st (Import ns) = visit_Import env st (Import ns) ns"
| "visit env st (ImportFrom m ns l) = visit_ImportFrom env st (ImportFrom m ns l) m ns l"
| "visit env st (Assign ts v) = visit_Assign env st (Assign ts v) ts v"
| "visit env st (FunctionDef n body) = foldl (visit env) st body"
| "visit env st (AsyncFunctionDef n body) = foldl (visit env) st body"
| "visit env st (ClassDef n body) = foldl (visit env) st body"
| "visit env st (OtherStmt body) = foldl (visit env) st body"

definition ImportCollector :: "environment \<Rightarrow> module_ast \<Rightarrow> collector" where
  "ImportCollector env tree = (case tree of Module body \<Rightarrow> foldl (visit env) collector_init body)"

text \<open>The property \<open>imported\<close>: every alias of every item, a later item replacing an earlier one.\<close>

definition imported :: "collector \<Rightarrow> (string \<times> ImportItem) list" where
  "imported st =
     foldl (\<lambda>d cmd. foldl (\<lambda>d' al. AList.update al cmd d') d (map fst (names cmd))) [] (import_items st)"

section \<open>parser.py: is\_defined\_in\_source\<close>

text \<open>
  An object, as far as \<open>is_defined_in_source\<close> reads it: its \<open>__name__\<close> attribute, or
  \<open>None\<close> when the object has no such attribute (reading it raises \<open>AttributeError\<close>).
\<close>

record py_object =
  obj_name :: "string option"

text \<open>The child statements of a statement, in order (\<open>ast.iter_child_nodes\<close>).\<close>

fun child_nodes :: "stmt \<Rightarrow> stmt list" where
  "child_nodes (FunctionDef n body) = body"
| "child_nodes (AsyncFunctionDef n body) = body"
| "child_nodes (ClassDef n body) = body"
| "child_nodes (OtherStmt body) = body"
| "child_nodes (Import ns) = []"
| "child_nodes (ImportFrom m ns l) = []"
| "child_nodes (Assign ts v) = []"

text \<open>
  \<open>ast.walk\<close>: a queue of nodes; the first node is taken out, its children are put at the
  end, and the node is yielded. The model keeps the statements: the module node and the
  expression nodes are neither imports nor definitions.
\<close>

function walk_queue :: "stmt list \<Rightarrow> stmt list" where
  "walk_queue [] = []"
| "walk_queue (node # todo) = node # walk_queue (todo @ child_nodes node)"
  by pat_completeness auto
termination
proof (relation "measure (\<lambda>q. sum_list (map (\<lambda>s. Suc (size s)) q))")
  show "wf (measure (\<lambda>q. sum_list (map (\<lambda>s. Suc (size s)) q)))" by simp
next
  fix node :: stmt and todo :: "stmt list"
  have aux: "sum_list (map (\<lambda>s. Suc (size s)) xs) = sum_list (map size xs) + length xs"
    for xs :: "stmt list"
    by (induction xs) simp_all
  have "sum_list (map (\<lambda>s. Suc (size s)) (child_nodes node)) \<le> size node"
    by (cases node) (simp_all add: size_list_conv_sum_list aux)
  then show "(todo @ child_nodes node, node # todo)
               \<in> measure (\<lambda>q. sum_list (map (\<lambda>s. Suc (size s)) q))"
    by simp
qed

definition walk :: "module_ast \<Rightarrow> stmt list" where
  "walk tree = (case tree of Module body \<Rightarrow> walk_queue body)"

text \<open>
  The inner loop over the aliases of an import: \<open>obj.__name__\<close> is read at each
  comparison. \<open>Inr True\<close> is the \<open>return True\<close>; \<open>Inr False\<close> is the end of the loop.
\<close>

fun alias_loop :: "py_object \<Rightarrow> import_alias list \<Rightarrow> py_exception + bool" where
  "alias_loop obj [] = Inr False"
| "alias_loop obj (a # as) =
     (case obj_name obj of
        None \<Rightarrow> Inl AttributeError
      | Some n \<Rightarrow> if bound_alias a = n then Inr True else alias_loop obj as)"

definition name_check :: "py_object \<Rightarrow> string \<Rightarrow> py_exception + bool" where
  "name_check obj node_name =
     (case obj_name obj of
        None \<Rightarrow> Inl AttributeError
      | Some n \<Rightarrow> Inr (node_name = n))"

text \<open>What one node of the walk does: an exception, \<open>return True\<close>, or go on.\<close>

fun node_step :: "py_object \<Rightarrow> stmt \<Rightarrow> py_exception + bool" where
  "node_step obj (Import ns) = alias_loop obj ns"
| "node_step obj (ImportFrom m ns l) = alias_loop obj ns"
| "node_step obj (FunctionDef n body) = name_check obj n"
| "node_step obj (AsyncFunctionDef n body) = name_check obj n"
| "node_step obj (ClassDef n body) = name_check obj n"
| "node_step obj (Assign ts v) = Inr False"
| "node_step obj (OtherStmt body) = Inr False"

fun walk_loop :: "py_object \<Rightarrow> stmt list \<Rightarrow> py_exception + bool" where
  "walk_loop obj [] = Inr False"
| "walk_loop obj (node # nodes) =
     (case node_step obj node of
        Inl e \<Rightarrow> Inl e
      | Inr True \<Rightarrow> Inr True
      | Inr False \<Rightarrow> walk_loop obj nodes)"

text \<open>
  \<open>is_defined_in_source\<close>; \<open>parse src\<close> is the outcome of \<open>ast.parse(src)\<close>. Only
  \<open>SyntaxError\<close> is caught.
\<close>

definition is_defined_in_source ::
  "(string \<Rightarrow> py_exception + module_ast) \<Rightarrow> py_object \<Rightarrow> string \<Rightarrow> py_exception + bool" where
  "is_defined_in_source parse obj src =
     (case parse src of
        Inl e \<Rightarrow> if e = SyntaxError then Inr False else Inl e
      | Inr tree \<Rightarrow> walk_loop obj (walk tree))"

text \<open>
  The claim's side of C10: the names a statement defines or binds, at any depth. A
  definition contributes its name, an import the bound alias of each of its aliases.
\<close>

fun bound_names :: "stmt \<Rightarrow> string set" where
  "bound_names (Import ns) = bound_alias ` set ns"
| "bound_names (ImportFrom m ns l) = bound_alias ` set ns"
| "bound_names (Assign ts v) = {}"
| "bound_names (FunctionDef n body) = insert n (\<Union> (bound_names ` set body))"
| "bound_names (AsyncFunctionDef n body) = insert n (\<Union> (bound_names ` set body))"
| "bound_names (ClassDef n body) = insert n (\<Union> (bound_names ` set body))"
| "bound_names (OtherStmt body) = \<Union> (bound_names ` set body)"

definition module_bound_names :: "module_ast \<Rightarrow> string set" where
  "module_bound_names tree = (case tree of Module body \<Rightarrow> \<Union> (bound_names ` set body))"

section \<open>isolator.py: rendering a report\<close>

text \<open>
  Modelled from the spec: the \<open>VarsItem\<close> and \<open>DefItem\<close> dataclasses and the report of the
  analyzer (\<open>deph/types\<close> and \<open>deph/analyzer\<close> are not among the sources), as far as
  \<open>isolator.py\<close> reads them. A \<open>VarsItem\<close> has a name and the source of its assignment. A
  \<open>DefItem\<close> has a name, a type (\<open>class\<close>, \<open>function\<close>, ...), the original node, the
  pruned node and the source text; a missing node is \<open>None\<close>. A report is a dict with the
  keys \<open>imports\<close> (module name to alias to item), \<open>typehints\<close> (name to alias), \<open>vars\<close>
  (module name to items), \<open>def_items\<close> and \<open>unbound\<close>; a dict is an association list in
  insertion order, and a missing key is the empty value, as \<open>report.get\<close> reads it.
\<close>

record VarsItem =
  var_name :: string
  var_code :: string

record DefItem =
  def_name :: string
  def_type :: string
  def_node :: "stmt option"
  def_pruned :: "stmt option"
  def_code :: string

record Report =
  report_imports :: "(string \<times> (string \<times> ImportItem) list) list"
  report_typehints :: "(string \<times> string) list"
  report_vars :: "(string \<times> VarsItem list) list"
  report_def_items :: "DefItem list"
  report_unbound :: "string list"

text \<open>The two options of an \<open>Isolator\<close>.\<close>

record Isolator =
  sort_imports :: bool
  keep_dynamic_imports :: bool

text \<open>
  The values the requirement lists can hold: a string, \<open>None\<close>, or a set of package
  names (a package name is a string or \<open>None\<close>).
\<close>

datatype py_value = PStr string | PNone | PSet "string option set"

text \<open>The bundle \<open>isolate_from_report\<close> returns (an \<open>AttrDefaultDict\<close>).\<close>

record result_bundle =
  source :: string
  reqs_pypi :: "py_value list"
  reqs_unknown :: "py_value list"
  unbound :: "string list"
  warnings :: "string list"

text \<open>The values of the values of \<open>imports_by_module\<close>, in dict order.\<close>

definition import_values :: "(string \<times> (string \<times> ImportItem) list) list \<Rightarrow> ImportItem list" where
  "import_values imports_by_module =
     concat (map (\<lambda>alias_map. map snd alias_map) (map snd imports_by_module))"

text \<open>
  The sort key of \<open>_collect_import_lines\<close>:
  \<open>(it.is_dynamic, str(it.module) or "", str(it.code))\<close>; \<open>str(None)\<close> is \<open>None\<close>.
\<close>

definition import_sort_key :: "ImportItem \<Rightarrow> bool \<times> string \<times> string" where
  "import_sort_key it = (is_dynamic it, format_opt (module it), code it)"

text \<open>The loop of \<open>_collect_import_lines\<close>, with the set \<open>seen\<close> and the list \<open>lines\<close>.\<close>

fun import_lines_loop :: "bool \<Rightarrow> ImportItem list \<Rightarrow> string set \<Rightarrow> string list \<Rightarrow> string list" where
  "import_lines_loop keep [] seen lines = lines"
| "import_lines_loop keep (imp # items) seen lines =
     (if is_dynamic imp \<and> \<not> keep then import_lines_loop keep items seen lines
      else let line = rstrip (code imp)
           in if line \<noteq> [] \<and> line \<notin> seen
              then import_lines_loop keep items (insert line seen) (lines @ [line])
              else import_lines_loop keep items seen lines)"

definition collect_import_lines ::
  "Isolator \<Rightarrow> (string \<times> (string \<times> ImportItem) list) list \<Rightarrow> string list" where
  "collect_import_lines self imports_by_module =
     (let items = import_values imports_by_module;
          items' = (if sort_imports self then sort_key import_sort_key items else items)
      in import_lines_loop (keep_dynamic_imports self) items' {} [])"

text \<open>
  \<open>_collect_vars_lines\<close>: the module names sorted, the items of each module in their
  order, the lines with an empty \<open>rstrip\<close> left out.
\<close>

definition vars_of_module :: "(string \<times> VarsItem list) list \<Rightarrow> string \<Rightarrow> VarsItem list" where
  "vars_of_module vars_by_module module_name =
     (case map_of vars_by_module module_name of None \<Rightarrow> [] | Some items \<Rightarrow> items)"

definition collect_vars_lines :: "(string \<times> VarsItem list) list \<Rightarrow> string list" where
  "collect_vars_lines vars_by_module =
     filter (\<lambda>c. c \<noteq> [])
       (map (\<lambda>var_item. rstrip (var_code var_item))
          (concat (map (vars_of_module vars_by_module) (sort (map fst vars_by_module)))))"

text \<open>
  \<open>_unparse_or_fallback\<close>: the pruned node, else the original node; a definition node is
  unparsed; when there is none, or unparsing raises, the stripped source text, or the
  placeholder when that is empty.
\<close>

definition is_def_node :: "stmt \<Rightarrow> bool" where
  "is_def_node n =
     (case n of ClassDef x b \<Rightarrow> True | FunctionDef x b \<Rightarrow> True | AsyncFunctionDef x b \<Rightarrow> True
      | _ \<Rightarrow> False)"

definition fallback_code :: "DefItem \<Rightarrow> string" where
  "fallback_code di =
     (if strip (def_code di) \<noteq> [] then strip (def_code di) else ''# <unparseable definition>'')"

definition unparse_or_fallback :: "environment \<Rightarrow> DefItem \<Rightarrow> string" where
  "unparse_or_fallback env di =
     (case (case def_pruned di of Some n \<Rightarrow> Some n | None \<Rightarrow> def_node di) of
        None \<Rightarrow> fallback_code di
      | Some n \<Rightarrow>
          if is_def_node n
          then (case try_unparse env n of Some text \<Rightarrow> text | None \<Rightarrow> fallback_code di)
          else fallback_code di)"

definition collect_def_lines :: "environment \<Rightarrow> DefItem list \<Rightarrow> string list" where
  "collect_def_lines env def_items =
     (let classes = filter (\<lambda>d. def_type d = ''class'') def_items;
          funcs = filter (\<lambda>d. def_type d \<noteq> ''class'') def_items
      in map (unparse_or_fallback env) classes @ map (unparse_or_fallback env) funcs)"

text \<open>
  \<open>_collect_warnings\<close>: the names that are not empty, as a sorted list without duplicates;
  none gives no warning; otherwise one message, which is also printed to \<open>sys.stderr\<close>.
  The result is the list of warnings and the text written to the standard error stream.
\<close>

definition warning_header :: string where
  "warning_header =
     ''Unresolved names detected. These may need to be provided at runtime or via stub definitions:''
     @ [newline] @ '' - ''"

definition collect_warnings :: "string list \<Rightarrow> string list \<times> string" where
  "collect_warnings unbound_list =
     (let unbound_names = sort (remdups (filter (\<lambda>x. x \<noteq> []) unbound_list))
      in if unbound_names = [] then ([], [])
         else let warning_message = warning_header @ join ([newline] @ '' - '') unbound_names
              in ([warning_message], warning_message @ [newline]))"

text \<open>
  \<open>_extract_package_requirements\<close>: the loop over the items, with the three lists
  \<open>on_pypi\<close>, \<open>stdlib\<close>, \<open>unknown\<close>.
\<close>

fun requirements_loop ::
  "environment \<Rightarrow> ImportItem list \<Rightarrow> ImportItem list \<times> ImportItem list \<times> ImportItem list
   \<Rightarrow> ImportItem list \<times> ImportItem list \<times> ImportItem list" where
  "requirements_loop env [] acc = acc"
| "requirements_loop env (impitem # items) (pypi, stdlib, unknown) =
     (case package_name impitem of
        None \<Rightarrow> requirements_loop env items (pypi, stdlib, unknown @ [impitem])
      | Some pname \<Rightarrow>
          if pname = [] then requirements_loop env items (pypi, stdlib, unknown @ [impitem])
          else if \<not> is_stdlib env pname
          then (if on_pypi env pname
                then requirements_loop env items (pypi @ [impitem], stdlib, unknown)
                else requirements_loop env items (pypi, stdlib, unknown @ [impitem]))
          else requirements_loop env items (pypi, stdlib @ [impitem], unknown))"

definition extract_package_requirements ::
  "environment \<Rightarrow> Report \<Rightarrow> ImportItem list \<times> ImportItem list \<times> ImportItem list" where
  "extract_package_requirements env report =
     requirements_loop env (import_values (report_imports report)) ([], [], [])"

text \<open>
  \<open>sorted\<close> applied to a tuple of one element: the list of that element; nothing is
  compared.
\<close>

definition sorted_tuple1 :: "py_value \<Rightarrow> py_value list" where
  "sorted_tuple1 x = [x]"

text \<open>The lines the \<open>typehints\<close> of the report add around the import lines.\<close>

definition typehint_imports :: "(string \<times> string) list \<Rightarrow> string list" where
  "typehint_imports typehints =
     map (\<lambda>(name', asname). if name' \<noteq> asname then name' @ '' as '' @ asname else name') typehints"

definition with_typehints :: "environment \<Rightarrow> (string \<times> string) list \<Rightarrow> string list \<Rightarrow> string list" where
  "with_typehints env typehints import_lines =
     (if typehints \<noteq> []
      then (''from __future__ import annotations'' # import_lines)
           @ [''from typing import TYPE_CHECKING'',
              ''if TYPE_CHECKING:'',
              indent env (''from typing import '' @ join '', '' (typehint_imports typehints)) ''    '']
      else import_lines)"

text \<open>\<open>sections.get(key, "")\<close>.\<close>

definition get_section :: "(string \<rightharpoonup> string) \<Rightarrow> string \<Rightarrow> string" where
  "get_section sections key = (case sections key of None \<Rightarrow> [] | Some text \<Rightarrow> text)"

text \<open>
  \<open>isolate_from_report\<close>. The result is the bundle and the text written to the standard
  error stream. In the source the two requirement sets are each followed by a comma, so
  each is a tuple of one set, and \<open>sorted\<close> is applied to that tuple.
\<close>

definition isolate_from_report :: "Isolator \<Rightarrow> environment \<Rightarrow> Report \<Rightarrow> result_bundle \<times> string" where
  "isolate_from_report self env report =
     (let import_lines =
            with_typehints env (report_typehints report)
              (collect_import_lines self (report_imports report));
          sections1 = (if import_lines \<noteq> []
                       then Map.empty(''imports'' \<mapsto> join [newline] import_lines)
                       else Map.empty);
          var_lines = collect_vars_lines (report_vars report);
          sections2 = (if var_lines \<noteq> []
                       then sections1(''vars'' \<mapsto> join [newline] var_lines)
                       else sections1);
          def_lines = collect_def_lines env (report_def_items report);
          sections3 = (if def_lines \<noteq> []
                       then sections2(''defs'' \<mapsto> join [newline, newline] def_lines)
                       else sections2);
          unbound' = report_unbound report;
          (warnings', err) = collect_warnings unbound';
          ordered_sections =
            [get_section sections3 ''imports'', get_section sections3 ''vars'',
             get_section sections3 ''defs''];
          final_code = join [newline, newline] (filter (\<lambda>s. s \<noteq> []) ordered_sections);
          (req_pypi, req_stdlib, req_unknown) = extract_package_requirements env report;
          reqs_pypi' = PSet (set (map package_name req_pypi));
          reqs_unknown' = PSet (set (map package_name req_unknown))
      in (\<lparr>source = rstrip final_code @ [newline],
           reqs_pypi = sorted_tuple1 reqs_pypi',
           reqs_unknown = sorted_tuple1 reqs_unknown',
           unbound = unbound',
           warnings = warnings'\<rparr>, err))"

text \<open>
  For the statements about the import lines: the items whose line the loop of
  \<open>_collect_import_lines\<close> appends, in the order in which it appends them.
\<close>

fun emitting_items :: "bool \<Rightarrow> ImportItem list \<Rightarrow> string set \<Rightarrow> ImportItem list" where
  "emitting_items keep [] seen = []"
| "emitting_items keep (imp # items) seen =
     (if is_dynamic imp \<and> \<not> keep then emitting_items keep items seen
      else if rstrip (code imp) \<noteq> [] \<and> rstrip (code imp) \<notin> seen
           then imp # emitting_items keep items (insert (rstrip (code imp)) seen)
           else emitting_items keep items seen)"

text \<open>A report without its dynamic imports.\<close>

definition without_dynamic ::
  "(string \<times> (string \<times> ImportItem) list) list \<Rightarrow> (string \<times> (string \<times> ImportItem) list) list" where
  "without_dynamic imports_by_module =
     map (\<lambda>(m, alias_map). (m, filter (\<lambda>(a, it). \<not> is_dynamic it) alias_map)) imports_by_module"

text \<open>
  The claims' side of C5 and C6. The alias of a star import from the dotted module name
  \<open>m\<close> is \<open>*_\<close>, the top-level segment, a dot and the sub-module path, the latter
  formatted as an f-string formats it. An expression is a dynamic import call when it is a
  call, the name of the called function (the identifier of a name, the attribute of an
  attribute access) is tracked or contains \<open>__import__\<close> or \<open>import_module\<close>, and the first
  positional argument is a string literal; that literal is \<open>call_literal\<close>; the last
  keyword \<open>package=<string literal>\<close> of the call, if any, is \<open>package_override\<close>.
\<close>

definition star_alias :: "string \<Rightarrow> string" where
  "star_alias m = ''*_'' @ fst (parse_submodule m) @ ''.'' @ format_opt (snd (parse_submodule m))"

definition call_target_name :: "expr \<Rightarrow> string option" where
  "call_target_name f = (case f of Name n \<Rightarrow> Some n | Attribute v a \<Rightarrow> Some a | _ \<Rightarrow> None)"

definition call_literal :: "expr \<Rightarrow> string option" where
  "call_literal e =
     (case e of
        Call f args keywords \<Rightarrow>
          (case args of Constant (StrConst lit) # rest \<Rightarrow> Some lit | _ \<Rightarrow> None)
      | _ \<Rightarrow> None)"

definition is_dynamic_import_call :: "string list \<Rightarrow> expr \<Rightarrow> bool" where
  "is_dynamic_import_call tracked e =
     (case e of
        Call f args keywords \<Rightarrow>
          (case call_target_name f of
             None \<Rightarrow> False
           | Some n \<Rightarrow>
               (n \<in> set tracked \<or> py_in ''__import__'' n \<or> py_in ''import_module'' n)
               \<and> call_literal e \<noteq> None)
      | _ \<Rightarrow> False)"

definition is_package_keyword :: "string option \<times> expr \<Rightarrow> bool" where
  "is_package_keyword kw = (fst kw = Some ''package'' \<and> is_str_constant (snd kw))"

definition package_override :: "expr \<Rightarrow> string option" where
  "package_override e =
     (case e of
        Call f args keywords \<Rightarrow>
          (case filter is_package_keyword keywords of
             [] \<Rightarrow> None
           | kw # kws \<Rightarrow>
               (case snd (last (kw # kws)) of Constant (StrConst p) \<Rightarrow> Some p | _ \<Rightarrow> None))
      | _ \<Rightarrow> None)"

text \<open>The names one node defines or binds by itself, for C10.\<close>

fun node_names :: "stmt \<Rightarrow> string set" where
  "node_names (Import ns) = bound_alias ` set ns"
| "node_names (ImportFrom m ns l) = bound_alias ` set ns"
| "node_names (FunctionDef n body) = {n}"
| "node_names (AsyncFunctionDef n body) = {n}"
| "node_names (ClassDef n body) = {n}"
| "node_names (Assign ts v) = {}"
| "node_names (OtherStmt body) = {}"

text \<open>
  The nodes at which the walk reads \<open>obj.__name__\<close>: an import with at least one alias, and
  every definition.
\<close>

fun reads_name :: "stmt \<Rightarrow> bool" where
  "reads_name (Import ns) \<longleftrightarrow> ns \<noteq> []"
| "reads_name (ImportFrom m ns l) \<longleftrightarrow> ns \<noteq> []"
| "reads_name (FunctionDef n body) \<longleftrightarrow> True"
| "reads_name (AsyncFunctionDef n body) \<longleftrightarrow> True"
| "reads_name (ClassDef n body) \<longleftrightarrow> True"
| "reads_name (Assign ts v) \<longleftrightarrow> False"
| "reads_name (OtherStmt body) \<longleftrightarrow> False"

section \<open>Example inputs\<close>

text \<open>
  An environment for the examples: a few standard-library names, an empty distribution
  table, \<open>numpy\<close> as the one name PyPI confirms, statements unparsed as above, text that
  needs no dedenting, one-line indentation, and definitions whose nodes cannot be
  unparsed (so that their stored source text is rendered).
\<close>

definition example_env :: environment where
  "example_env =
     \<lparr>is_stdlib = (\<lambda>m. m \<in> set [''importlib'', ''json'', ''math'', ''os'', ''textwrap'']),
      PACKAGE_DISTRIBUTIONS = Map.empty,
      unparse = unparse_simple,
      dedent = (\<lambda>text. text),
      indent = (\<lambda>text prefix'. prefix' @ text),
      on_pypi = (\<lambda>n. n = ''numpy''),
      try_unparse = (\<lambda>n. None)\<rparr>"

definition default_isolator :: Isolator where
  "default_isolator = \<lparr>sort_imports = True, keep_dynamic_imports = True\<rparr>"

definition drop_dynamic_isolator :: Isolator where
  "drop_dynamic_isolator = \<lparr>sort_imports = True, keep_dynamic_imports = False\<rparr>"

definition numpy_import :: ImportItem where
  "numpy_import =
     \<lparr>names = [(''np'', ''numpy'')], module = Some ''numpy'', package_name = Some ''numpy'',
      submodule = None, code = ''import numpy as np'', level = None,
      is_dynamic = False, use_star = False\<rparr>"

definition importlib_import :: ImportItem where
  "importlib_import =
     \<lparr>names = [(''importlib'', ''importlib'')], module = Some ''importlib'',
      package_name = Some ''importlib'', submodule = None, code = ''import importlib'',
      level = None, is_dynamic = False, use_star = False\<rparr>"

definition json_dynamic_import :: ImportItem where
  "json_dynamic_import =
     \<lparr>names = [(''_json'', ''json'')], module = Some ''json'', package_name = Some ''json'',
      submodule = None, code = ''_json = importlib.import_module('' @ [sq] @ ''json'' @ [sq] @ '')'',
      level = None, is_dynamic = True, use_star = False\<rparr>"

definition empty_report :: Report where
  "empty_report =
     \<lparr>report_imports = [], report_typehints = [], report_vars = [], report_def_items = [],
      report_unbound = []\<rparr>"

definition source_def_item :: "string \<Rightarrow> string \<Rightarrow> string \<Rightarrow> DefItem" where
  "source_def_item n t c =
     \<lparr>def_name = n, def_type = t, def_node = None, def_pruned = None, def_code = c\<rparr>"

text \<open>
  A report like the one of the test sample \<open>f_dynamic_json_loader\<close>, with one more import,
  a class and an unresolved name.
\<close>

definition example_report :: Report where
  "example_report =
     \<lparr>report_imports =
        [(''test_samples'',
          [(''_json'', json_dynamic_import), (''np'', numpy_import), (''importlib'', importlib_import)])],
      report_typehints = [],
      report_vars = [(''test_samples'', [\<lparr>var_name = ''JSON_OBJ'', var_code = ''JSON_OBJ = _json''\<rparr>])],
      report_def_items =
        [source_def_item ''f'' ''function'' ''def f(x): return JSON_OBJ.dumps(x)'',
         source_def_item ''C'' ''class'' ''class C: pass'',
         source_def_item ''g'' ''function'' ''def g(): return missing()''],
      report_unbound = [''missing'']\<rparr>"

section \<open>Lemmas about strings\<close>

lemma py_in_sublist: "py_in x s \<longleftrightarrow> sublist x s"
  by (induction s) (simp_all add: sublist_Cons_right)

lemma rstrip_Nil_iff: "rstrip s = [] \<longleftrightarrow> (\<forall>c \<in> set s. py_isspace c)"
  by (simp add: rstrip_def dropWhile_eq_Nil_conv)

lemma rstrip_append:
  "rstrip (xs @ ys) = (if rstrip ys = [] then rstrip xs else xs @ rstrip ys)"
  by (simp add: rstrip_def dropWhile_append dropWhile_eq_Nil_conv)

lemma rstrip_last: "rstrip s \<noteq> [] \<Longrightarrow> \<not> py_isspace (last (rstrip s))"
  unfolding rstrip_def using hd_dropWhile [of py_isspace "rev s"]
  by (simp add: last_rev)

lemma rstrip_idem: "rstrip (rstrip s) = rstrip s"
proof (cases "rstrip s = []")
  case True
  then show ?thesis by (simp add: rstrip_def)
next
  case False
  then have "\<not> py_isspace (hd (dropWhile py_isspace (rev s)))" "dropWhile py_isspace (rev s) \<noteq> []"
    using hd_dropWhile [of py_isspace "rev s"] by (simp_all add: rstrip_def)
  then have "dropWhile py_isspace (dropWhile py_isspace (rev s)) = dropWhile py_isspace (rev s)"
    by (cases "dropWhile py_isspace (rev s)") simp_all
  then show ?thesis by (simp add: rstrip_def)
qed

lemma rstrip_decomp: "\<exists>w. s = rstrip s @ w \<and> (\<forall>c \<in> set w. py_isspace c)"
proof -
  have "rev s = takeWhile py_isspace (rev s) @ dropWhile py_isspace (rev s)" by simp
  then have "s = rev (dropWhile py_isspace (rev s)) @ rev (takeWhile py_isspace (rev s))"
    by (metis rev_append rev_rev_ident)
  moreover have "\<forall>c \<in> set (rev (takeWhile py_isspace (rev s))). py_isspace c"
    by (auto dest: set_takeWhileD)
  ultimately show ?thesis unfolding rstrip_def by blast
qed

lemma sublist_rstrip:
  assumes "sublist t S"
  shows "sublist (rstrip t) (rstrip S)"
proof (cases "rstrip t = []")
  case True
  then show ?thesis by simp
next
  case False
  from assms obtain a b where S: "S = a @ t @ b" by (auto simp: sublist_def)
  obtain w where w: "t = rstrip t @ w" by (metis rstrip_decomp)
  have S': "S = (a @ rstrip t) @ (w @ b)" using S w by (metis append.assoc)
  have keep: "rstrip (a @ rstrip t) = a @ rstrip t"
    using False by (simp add: rstrip_append rstrip_idem)
  have "rstrip S = a @ rstrip t \<or> rstrip S = (a @ rstrip t) @ rstrip (w @ b)"
    by (subst S', subst rstrip_append) (simp add: keep)
  then show ?thesis
    by (metis append.assoc append_Nil2 sublist_appendI)
qed

lemma sublist_in_append: "sublist xs ys \<Longrightarrow> sublist xs (ps @ ys @ ss)"
proof -
  assume "sublist xs ys"
  then obtain a b where "ys = a @ xs @ b" by (auto simp: sublist_def)
  then have "ps @ ys @ ss = (ps @ a) @ xs @ (b @ ss)" by simp
  then show ?thesis unfolding sublist_def by blast
qed

lemma sublist_in_append_left: "sublist xs ys \<Longrightarrow> sublist xs (ps @ ys)"
  using sublist_in_append [of xs ys ps "[]"] by simp

lemma join_contains: "x \<in> set xs \<Longrightarrow> sublist x (join sep xs)"
proof (induction sep xs rule: join.induct)
  case (1 sep)
  then show ?case by simp
next
  case (2 sep x')
  then show ?case by simp
next
  case (3 sep x' y ys)
  show ?case
  proof (cases "x = x'")
    case True
    then show ?thesis by (simp add: sublist_append_rightI)
  next
    case False
    with 3 have "sublist x (join sep (y # ys))" by simp
    then have "sublist x ((x' @ sep) @ join sep (y # ys))"
      by (rule sublist_in_append_left)
    then show ?thesis by simp
  qed
qed


section \<open>The PyPI probe: theorems\<close>

text \<open>
  What the code computes: one GET on \<open>https://pypi.org/pypi/<name>/json\<close> with a timeout
  of 5 seconds, always a boolean and never a propagated exception; the boolean is
  \<open>False\<close> for every exception of the request and for every status from 400 to 599, and
  \<open>True\<close> for every other status.
\<close>

lemma is_on_pypi_result:
  "is_on_pypi get pkg =
     Inr (case get (''https://pypi.org/pypi/'' @ pkg @ ''/json'') 5 of
            Inl e \<Rightarrow> False
          | Inr r \<Rightarrow> \<not> (400 \<le> status_code r \<and> status_code r < 600))"
  by (cases "get (pypi_url pkg) 5")
     (auto simp: is_on_pypi_def is_on_pypi_try_def raise_for_status_def pypi_url_def
           split: py_exception.splits sum.splits)

text \<open>
  C9 says that the probe answers true exactly when the response status is 200, as the
  docstring of \<open>is_on_pypi\<close> does (\<open>True\<close> for HTTP 200 OK, \<open>False\<close> otherwise). The code
  leaves the decision to \<open>raise_for_status\<close>, which raises for the statuses 400 to 599
  only: for a response with status 204 the probe answers \<open>True\<close>, where the claim and the
  docstring say \<open>False\<close>. For status 200 it answers \<open>True\<close>, and for status 404 and for a
  failed request \<open>False\<close>, as the claim says.
\<close>

theorem is_on_pypi_status_204:
  "is_on_pypi (\<lambda>url timeout. Inr \<lparr>status_code = 204\<rparr>) ''numpy'' = Inr True
   \<and> is_on_pypi (\<lambda>url timeout. Inr \<lparr>status_code = 200\<rparr>) ''numpy'' = Inr True
   \<and> is_on_pypi (\<lambda>url timeout. Inr \<lparr>status_code = 404\<rparr>) ''numpy'' = Inr False
   \<and> is_on_pypi (\<lambda>url timeout. Inl RequestException) ''numpy'' = Inr False"
  by (simp add: is_on_pypi_def is_on_pypi_try_def raise_for_status_def)

section \<open>Lemmas about \<open>isolate_from_report\<close>\<close>

text \<open>The fields of the result, one at a time.\<close>

lemma isolate_source:
  "source (fst (isolate_from_report self env r)) =
     rstrip (join [newline, newline]
               (filter (\<lambda>s. s \<noteq> [])
                  [join [newline] (with_typehints env (report_typehints r) (collect_import_lines self (report_imports r))),
                   join [newline] (collect_vars_lines (report_vars r)),
                   join [newline, newline] (collect_def_lines env (report_def_items r))]))
     @ [newline]"
  by (simp add: isolate_from_report_def Let_def case_prod_beta get_section_def)




lemma isolate_reqs_pypi:
  "reqs_pypi (fst (isolate_from_report self env r)) =
     [PSet (set (map package_name (fst (extract_package_requirements env r))))]"
  by (simp add: isolate_from_report_def Let_def case_prod_beta sorted_tuple1_def)

lemma isolate_reqs_unknown:
  "reqs_unknown (fst (isolate_from_report self env r)) =
     [PSet (set (map package_name (snd (snd (extract_package_requirements env r)))))]"
  by (simp add: isolate_from_report_def Let_def case_prod_beta sorted_tuple1_def)

lemmas example_defs = example_env_def default_isolator_def numpy_import_def importlib_import_def
  json_dynamic_import_def empty_report_def source_def_item_def example_report_def


section \<open>Lemmas about the import lines\<close>

lemma loop_emitting:
  "import_lines_loop keep items seen lines =
     lines @ map (\<lambda>it. rstrip (code it)) (emitting_items keep items seen)"
  by (induction keep items seen arbitrary: lines rule: emitting_items.induct)
     (simp_all add: Let_def)

lemma emitting_step:
  "emitting_items keep (a # items) seen =
     (if is_dynamic a \<and> \<not> keep \<or> rstrip (code a) = [] \<or> rstrip (code a) \<in> seen
      then emitting_items keep items seen
      else a # emitting_items keep items (insert (rstrip (code a)) seen))"
  by simp


lemma emitting_lines_set:
  "set (map (\<lambda>it. rstrip (code it)) (emitting_items keep items seen)) =
     ((\<lambda>it. rstrip (code it)) ` {it \<in> set items. is_dynamic it \<longrightarrow> keep}) - {[]} - seen"
proof (induction items arbitrary: seen)
  case Nil
  then show ?case by simp
next
  case (Cons a items)
  define L :: "ImportItem \<Rightarrow> string" where "L = (\<lambda>it. rstrip (code it))"
  define ok :: "ImportItem \<Rightarrow> bool" where "ok = (\<lambda>it. is_dynamic it \<longrightarrow> keep)"
  define R where "R = L ` {it \<in> set items. ok it}"
  have IH: "set (map L (emitting_items keep items s)) = R - {[]} - s" for s
    unfolding L_def R_def ok_def by (rule Cons.IH)
  have step: "emitting_items keep (a # items) seen =
     (if \<not> ok a \<or> L a = [] \<or> L a \<in> seen
      then emitting_items keep items seen
      else a # emitting_items keep items (insert (L a) seen))"
    unfolding L_def ok_def using emitting_step [of keep a items seen] by simp
  have Ra: "L ` {it \<in> set (a # items). ok it} = (if ok a then insert (L a) R else R)"
    unfolding R_def by auto
  have "set (map L (emitting_items keep (a # items) seen))
          = L ` {it \<in> set (a # items). ok it} - {[]} - seen"
  proof (cases "\<not> ok a \<or> L a = [] \<or> L a \<in> seen")
    case True
    then have "set (map L (emitting_items keep (a # items) seen)) = R - {[]} - seen"
      by (simp only: step if_True IH)
    moreover have "(if ok a then insert (L a) R else R) - {[]} - seen = R - {[]} - seen"
      using True by auto
    ultimately show ?thesis by (simp only: Ra)
  next
    case False
    then have "set (map L (emitting_items keep (a # items) seen))
                 = insert (L a) (R - {[]} - insert (L a) seen)"
      by (simp only: step if_False list.map list.set IH)
    moreover have "(if ok a then insert (L a) R else R) - {[]} - seen
                 = insert (L a) (R - {[]} - insert (L a) seen)"
      using False by auto
    ultimately show ?thesis by (simp only: Ra)
  qed
  then show ?case unfolding L_def ok_def .
qed

lemma emitting_not_seen:
  "it \<in> set (emitting_items keep items seen) \<Longrightarrow> rstrip (code it) \<notin> seen"
proof -
  assume "it \<in> set (emitting_items keep items seen)"
  then have "rstrip (code it) \<in> set (map (\<lambda>it. rstrip (code it)) (emitting_items keep items seen))"
    by simp
  then show ?thesis unfolding emitting_lines_set by simp
qed




section \<open>The requirement lists\<close>

text \<open>
  C1 says that \<open>reqs_pypi\<close> and \<open>reqs_unknown\<close> are sorted lists of distinct distribution
  names. The code builds each set of names, follows it by a comma, and sorts the
  resulting tuple of one set: for the example report, whose only import that PyPI
  confirms is \<open>numpy\<close>, \<open>reqs_pypi\<close> is the list with the one element \<open>{numpy}\<close> (a set, not
  the string \<open>numpy\<close>) and \<open>reqs_unknown\<close> is the list with the empty set (not the empty
  list); and for every report each of the two is a list of exactly one set.
\<close>

theorem isolate_from_report_requirement_lists:
  "reqs_pypi (fst (isolate_from_report default_isolator example_env example_report))
     = [PSet {Some ''numpy''}]
   \<and> reqs_unknown (fst (isolate_from_report default_isolator example_env example_report))
     = [PSet {}]
   \<and> (\<forall>self env r. \<exists>S U. reqs_pypi (fst (isolate_from_report self env r)) = [PSet S]
                      \<and> reqs_unknown (fst (isolate_from_report self env r)) = [PSet U])"
proof -
  have "reqs_pypi (fst (isolate_from_report default_isolator example_env example_report))
          = [PSet {Some ''numpy''}]"
    by (simp add: isolate_reqs_pypi extract_package_requirements_def import_values_def example_defs)
  moreover have "reqs_unknown (fst (isolate_from_report default_isolator example_env example_report))
          = [PSet {}]"
    by (simp add: isolate_reqs_unknown extract_package_requirements_def import_values_def example_defs)
  moreover have "\<exists>S U. reqs_pypi (fst (isolate_from_report self env r)) = [PSet S]
                      \<and> reqs_unknown (fst (isolate_from_report self env r)) = [PSet U]"
    for self env r
    by (simp add: isolate_reqs_pypi isolate_reqs_unknown)
  ultimately show ?thesis by blast
qed

section \<open>Warnings for unresolved names\<close>




section \<open>The import lines and the items that emit them\<close>

lemma collect_import_lines_emitting:
  "collect_import_lines self imps =
     map (\<lambda>it. rstrip (code it))
       (emitting_items (keep_dynamic_imports self)
          (if sort_imports self then sort_key import_sort_key (import_values imps) else import_values imps) {})"
  by (simp add: collect_import_lines_def Let_def loop_emitting)

lemma collect_import_lines_set:
  "set (collect_import_lines self imps) =
     (\<lambda>it. rstrip (code it)) ` {it \<in> set (import_values imps). is_dynamic it \<longrightarrow> keep_dynamic_imports self} - {[]}"
  unfolding collect_import_lines_emitting emitting_lines_set by simp


lemma example_import_lines:
  "collect_import_lines default_isolator (report_imports example_report) =
     [''import importlib'', ''import numpy as np'',
      ''_json = importlib.import_module('' @ [sq] @ ''json'' @ [sq] @ '')'']"
  by (simp add: collect_import_lines_def import_values_def import_sort_key_def format_opt_def
      example_defs rstrip_def py_isspace_def sq_def Let_def)

section \<open>Sorted and deduplicated import lines\<close>



section \<open>Lemmas about the rendered source\<close>

lemma sublist_trans': "sublist x y \<Longrightarrow> sublist y z \<Longrightarrow> sublist x z"
proof -
  assume xy: "sublist x y" and "sublist y z"
  then obtain a b where "z = a @ y @ b" by (auto simp: sublist_def)
  then show ?thesis using sublist_in_append [OF xy, of a b] by simp
qed

lemma import_values_without_dynamic:
  "import_values (without_dynamic imps) = filter (\<lambda>it. \<not> is_dynamic it) (import_values imps)"
  by (induction imps) (auto simp: import_values_def without_dynamic_def filter_map comp_def case_prod_unfold)

lemma emitting_drop_dynamic:
  "emitting_items False (filter (\<lambda>it. \<not> is_dynamic it) items) seen = emitting_items False items seen"
  by (induction items arbitrary: seen) simp_all

lemma collect_import_lines_without_dynamic:
  "\<not> keep_dynamic_imports self \<Longrightarrow>
     collect_import_lines self (without_dynamic imps) = collect_import_lines self imps"
  by (simp add: collect_import_lines_emitting import_values_without_dynamic
      emitting_drop_dynamic filter_sort [symmetric])

lemma with_typehints_contains:
  "line \<in> set lines \<Longrightarrow> line \<in> set (with_typehints env th lines)"
  by (simp add: with_typehints_def)

lemma section_in_source:
  assumes "sublist x sec"
    and "sec = join [newline] (with_typehints env (report_typehints r) (collect_import_lines self (report_imports r)))
         \<or> sec = join [newline] (collect_vars_lines (report_vars r))
         \<or> sec = join [newline, newline] (collect_def_lines env (report_def_items r))"
  shows "sublist (rstrip x) (source (fst (isolate_from_report self env r)))"
proof -
  define secs where "secs =
     [join [newline] (with_typehints env (report_typehints r) (collect_import_lines self (report_imports r))),
      join [newline] (collect_vars_lines (report_vars r)),
      join [newline, newline] (collect_def_lines env (report_def_items r))]"
  define final where "final = join [newline, newline] (filter (\<lambda>s. s \<noteq> []) secs)"
  have src: "source (fst (isolate_from_report self env r)) = rstrip final @ [newline]"
    by (simp add: isolate_source final_def secs_def)
  have mem: "sec \<in> set secs" using assms(2) by (auto simp: secs_def)
  have "sublist x final"
  proof (cases "sec = []")
    case True
    with assms(1) show ?thesis by simp
  next
    case False
    with mem have "sec \<in> set (filter (\<lambda>s. s \<noteq> []) secs)" by simp
    then have "sublist sec final" unfolding final_def by (rule join_contains)
    with assms(1) show ?thesis by (rule sublist_trans')
  qed
  then have "sublist (rstrip x) (rstrip final)" by (rule sublist_rstrip)
  then have "sublist (rstrip x) ([] @ rstrip final @ [newline])" by (rule sublist_in_append)
  then show ?thesis by (simp add: src)
qed

lemma def_rendered:
  assumes "d \<in> set (report_def_items r)"
  shows "sublist (rstrip (unparse_or_fallback env d)) (source (fst (isolate_from_report self env r)))"
proof -
  have "unparse_or_fallback env d \<in> set (collect_def_lines env (report_def_items r))"
    using assms by (auto simp: collect_def_lines_def Let_def)
  then have "sublist (unparse_or_fallback env d)
               (join [newline, newline] (collect_def_lines env (report_def_items r)))"
    by (rule join_contains)
  then show ?thesis by (rule section_in_source) simp
qed

lemma import_line_rendered:
  assumes "it \<in> set (import_values (report_imports r))"
    and "is_dynamic it \<longrightarrow> keep_dynamic_imports self"
  shows "sublist (rstrip (code it)) (source (fst (isolate_from_report self env r)))"
proof (cases "rstrip (code it) = []")
  case True
  then show ?thesis by simp
next
  case False
  with assms have "rstrip (code it) \<in> set (collect_import_lines self (report_imports r))"
    unfolding collect_import_lines_set by blast
  then have "rstrip (code it) \<in> set (with_typehints env (report_typehints r)
                 (collect_import_lines self (report_imports r)))"
    by (rule with_typehints_contains)
  then have "sublist (rstrip (code it))
       (join [newline] (with_typehints env (report_typehints r)
                 (collect_import_lines self (report_imports r))))"
    by (rule join_contains)
  then have "sublist (rstrip (rstrip (code it))) (source (fst (isolate_from_report self env r)))"
    by (rule section_in_source) simp
  then show ?thesis by (simp add: rstrip_idem)
qed

lemma example_import_values:
  "import_values (report_imports example_report) = [json_dynamic_import, numpy_import, importlib_import]"
  by (simp add: import_values_def example_report_def)

lemma example_import_lines_dropped:
  "collect_import_lines drop_dynamic_isolator (report_imports example_report) =
     [''import importlib'', ''import numpy as np'']"
  by (simp add: collect_import_lines_def example_import_values import_sort_key_def format_opt_def
      numpy_import_def importlib_import_def json_dynamic_import_def drop_dynamic_isolator_def
      rstrip_def py_isspace_def sq_def Let_def)

lemma example_json_line:
  "rstrip (code json_dynamic_import) = ''_json = importlib.import_module('' @ [sq] @ ''json'' @ [sq] @ '')''"
  by (simp add: json_dynamic_import_def rstrip_def py_isspace_def sq_def)

lemma example_def_lines:
  "collect_def_lines example_env (report_def_items example_report) =
     [''class C: pass'', ''def f(x): return JSON_OBJ.dumps(x)'', ''def g(): return missing()'']"
  by (simp add: collect_def_lines_def example_report_def source_def_item_def unparse_or_fallback_def
      fallback_code_def strip_def lstrip_def rstrip_def py_isspace_def Let_def)

lemma example_class_line:
  "rstrip (unparse_or_fallback example_env (source_def_item ''C'' ''class'' ''class C: pass'')) = ''class C: pass''"
  by (simp add: source_def_item_def unparse_or_fallback_def
      fallback_code_def strip_def lstrip_def rstrip_def py_isspace_def)

section \<open>The flag \<open>keep_dynamic_imports\<close>\<close>

text \<open>
  C7: without \<open>keep_dynamic_imports\<close> no dynamic import contributes a line: the import
  lines, and so the source, are those of the report with its dynamic imports removed, and
  every import line is the line of a static import. With \<open>keep_dynamic_imports\<close> every
  dynamic import of the report has its line (the code without trailing whitespace) among
  the import lines, when that line is not empty, and its line occurs in the source. In
  both cases the rendering of every definition of the report occurs in the source
  (without trailing whitespace, which the last step of the rendering strips).
\<close>

theorem keep_dynamic_imports_flag:
  "(\<not> keep_dynamic_imports self \<longrightarrow>
      collect_import_lines self (report_imports r)
        = collect_import_lines self (without_dynamic (report_imports r))
      \<and> set (collect_import_lines self (report_imports r))
          \<subseteq> (\<lambda>it. rstrip (code it)) ` {it \<in> set (import_values (report_imports r)). \<not> is_dynamic it}
      \<and> source (fst (isolate_from_report self env r))
          = source (fst (isolate_from_report self env
                           (r\<lparr>report_imports := without_dynamic (report_imports r)\<rparr>))))
   \<and> (keep_dynamic_imports self \<longrightarrow>
        (\<forall>it \<in> set (import_values (report_imports r)).
            is_dynamic it \<longrightarrow>
              (rstrip (code it) \<noteq> [] \<longrightarrow> rstrip (code it) \<in> set (collect_import_lines self (report_imports r)))
              \<and> sublist (rstrip (code it)) (source (fst (isolate_from_report self env r)))))
   \<and> (\<forall>d \<in> set (report_def_items r).
        sublist (rstrip (unparse_or_fallback env d)) (source (fst (isolate_from_report self env r))))"
proof (intro conjI impI ballI)
  assume "\<not> keep_dynamic_imports self"
  then show eq: "collect_import_lines self (report_imports r)
        = collect_import_lines self (without_dynamic (report_imports r))"
    by (simp add: collect_import_lines_without_dynamic)
  then show "source (fst (isolate_from_report self env r))
          = source (fst (isolate_from_report self env
                           (r\<lparr>report_imports := without_dynamic (report_imports r)\<rparr>)))"
    by (simp add: isolate_source)
next
  assume "\<not> keep_dynamic_imports self"
  then show "set (collect_import_lines self (report_imports r))
          \<subseteq> (\<lambda>it. rstrip (code it)) ` {it \<in> set (import_values (report_imports r)). \<not> is_dynamic it}"
    unfolding collect_import_lines_set by auto
next
  fix it
  assume "keep_dynamic_imports self" "it \<in> set (import_values (report_imports r))"
    "rstrip (code it) \<noteq> []"
  then show "rstrip (code it) \<in> set (collect_import_lines self (report_imports r))"
    unfolding collect_import_lines_set by blast
next
  fix it
  assume "keep_dynamic_imports self" "it \<in> set (import_values (report_imports r))"
  then show "sublist (rstrip (code it)) (source (fst (isolate_from_report self env r)))"
    by (intro import_line_rendered) simp_all
next
  fix d
  assume "d \<in> set (report_def_items r)"
  then show "sublist (rstrip (unparse_or_fallback env d)) (source (fst (isolate_from_report self env r)))"
    by (rule def_rendered)
qed


theorem keep_dynamic_imports_flag_witness:
  "\<not> keep_dynamic_imports drop_dynamic_isolator
   \<and> collect_import_lines drop_dynamic_isolator (without_dynamic (report_imports example_report))
       = [''import importlib'', ''import numpy as np'']
   \<and> keep_dynamic_imports default_isolator
   \<and> sublist (''_json = importlib.import_module('' @ [sq] @ ''json'' @ [sq] @ '')'')
        (source (fst (isolate_from_report default_isolator example_env example_report)))
   \<and> sublist ''class C: pass''
        (source (fst (isolate_from_report drop_dynamic_isolator example_env example_report)))"
proof -
  note drop = keep_dynamic_imports_flag [of drop_dynamic_isolator example_report example_env]
  note keep = keep_dynamic_imports_flag [of default_isolator example_report example_env]
  have nd: "\<not> keep_dynamic_imports drop_dynamic_isolator" by (simp add: drop_dynamic_isolator_def)
  have kd: "keep_dynamic_imports default_isolator" by (simp add: default_isolator_def)
  have "collect_import_lines drop_dynamic_isolator (without_dynamic (report_imports example_report))
          = [''import importlib'', ''import numpy as np'']"
    using drop nd example_import_lines_dropped by simp
  moreover have "sublist (rstrip (code json_dynamic_import))
        (source (fst (isolate_from_report default_isolator example_env example_report)))"
    using keep kd by (simp add: example_import_values json_dynamic_import_def)
  moreover have "source_def_item ''C'' ''class'' ''class C: pass'' \<in> set (report_def_items example_report)"
    by (simp add: example_report_def)
  then have "sublist (rstrip (unparse_or_fallback example_env (source_def_item ''C'' ''class'' ''class C: pass'')))
        (source (fst (isolate_from_report drop_dynamic_isolator example_env example_report)))"
    using drop by blast
  ultimately show ?thesis using nd kd by (simp add: example_json_line example_class_line)
qed

section \<open>The layout of the source\<close>

text \<open>
  C4, as stated (definitions separated by two blank lines), fails: the definitions are
  joined by two newline characters, which is one blank line. For two functions \<open>f\<close> and
  \<open>g\<close> the source has one empty line between them, not two.
\<close>

theorem definitions_one_blank_line_counterexample:
  "source (fst (isolate_from_report default_isolator example_env
      (empty_report\<lparr>report_def_items :=
          [source_def_item ''f'' ''function'' ''def f(): pass'',
           source_def_item ''g'' ''function'' ''def g(): pass'']\<rparr>)))
     = ''def f(): pass\<newline>\<newline>def g(): pass\<newline>''
   \<and> source (fst (isolate_from_report default_isolator example_env
      (empty_report\<lparr>report_def_items :=
          [source_def_item ''f'' ''function'' ''def f(): pass'',
           source_def_item ''g'' ''function'' ''def g(): pass'']\<rparr>)))
     \<noteq> ''def f(): pass\<newline>\<newline>\<newline>def g(): pass\<newline>''"
  by (simp add: isolate_source collect_import_lines_def import_values_def with_typehints_def
      collect_vars_lines_def collect_def_lines_def unparse_or_fallback_def fallback_code_def
      strip_def lstrip_def rstrip_def py_isspace_def newline_def Let_def
      empty_report_def source_def_item_def example_env_def default_isolator_def)

text \<open>
  C4, amended: the source is the sections imports, variables, definitions, in this order,
  the empty ones left out, joined by one blank line (two newline characters); the import
  lines and the variable lines are joined by one newline, the definitions, classes first
  and functions after them, by one blank line (two newline characters); the trailing
  whitespace of the whole text is stripped and one newline ends it, so the source ends
  with exactly one newline.
\<close>

theorem isolate_from_report_layout:
  "source (fst (isolate_from_report self env r)) =
     rstrip (join [newline, newline]
        (filter (\<lambda>s. s \<noteq> [])
           [join [newline] (with_typehints env (report_typehints r)
                              (collect_import_lines self (report_imports r))),
            join [newline] (collect_vars_lines (report_vars r)),
            join [newline, newline]
              (map (unparse_or_fallback env)
                   (filter (\<lambda>d. def_type d = ''class'') (report_def_items r))
               @ map (unparse_or_fallback env)
                   (filter (\<lambda>d. def_type d \<noteq> ''class'') (report_def_items r)))]))
     @ [newline]
   \<and> (\<exists>body. source (fst (isolate_from_report self env r)) = body @ [newline]
              \<and> (body = [] \<or> \<not> py_isspace (last body)))"
proof -
  define final where "final = join [newline, newline]
        (filter (\<lambda>s. s \<noteq> [])
           [join [newline] (with_typehints env (report_typehints r)
                              (collect_import_lines self (report_imports r))),
            join [newline] (collect_vars_lines (report_vars r)),
            join [newline, newline]
              (map (unparse_or_fallback env)
                   (filter (\<lambda>d. def_type d = ''class'') (report_def_items r))
               @ map (unparse_or_fallback env)
                   (filter (\<lambda>d. def_type d \<noteq> ''class'') (report_def_items r)))])"
  have src: "source (fst (isolate_from_report self env r)) = rstrip final @ [newline]"
    unfolding final_def by (simp add: isolate_source collect_def_lines_def Let_def)
  have "rstrip final = [] \<or> \<not> py_isspace (last (rstrip final))"
    using rstrip_last [of final] by blast
  with src have "\<exists>body. source (fst (isolate_from_report self env r)) = body @ [newline]
              \<and> (body = [] \<or> \<not> py_isspace (last body))"
    by blast
  with src show ?thesis unfolding final_def by blast
qed

theorem isolate_from_report_layout_witness:
  "source (fst (isolate_from_report default_isolator example_env example_report)) =
     ''import importlib\<newline>import numpy as np\<newline>_json = importlib.import_module('' @ [sq] @ ''json'' @ [sq] @
     '')\<newline>\<newline>JSON_OBJ = _json\<newline>\<newline>class C: pass\<newline>\<newline>def f(x): return JSON_OBJ.dumps(x)\<newline>\<newline>def g(): return missing()\<newline>''"
proof -
  have lines: "with_typehints example_env (report_typehints example_report)
                 (collect_import_lines default_isolator (report_imports example_report))
      = [''import importlib'', ''import numpy as np'',
         ''_json = importlib.import_module('' @ [sq] @ ''json'' @ [sq] @ '')'']"
  proof -
    have "report_typehints example_report = []" by (simp add: example_report_def)
    then show ?thesis by (simp only: with_typehints_def example_import_lines simp_thms if_False)
  qed
  have vars: "collect_vars_lines (report_vars example_report) = [''JSON_OBJ = _json'']"
    by (simp add: collect_vars_lines_def vars_of_module_def example_report_def rstrip_def py_isspace_def)
  have defs: "map (unparse_or_fallback example_env)
                   (filter (\<lambda>d. def_type d = ''class'') (report_def_items example_report))
               @ map (unparse_or_fallback example_env)
                   (filter (\<lambda>d. def_type d \<noteq> ''class'') (report_def_items example_report))
      = [''class C: pass'', ''def f(x): return JSON_OBJ.dumps(x)'', ''def g(): return missing()'']"
    using example_def_lines by (simp add: collect_def_lines_def Let_def)
  show ?thesis
    using isolate_from_report_layout [of default_isolator example_env example_report]
    unfolding lines vars defs
    by (simp add: rstrip_def py_isspace_def newline_def sq_def)
qed

section \<open>Determinism of the source\<close>

text \<open>
  C2: the source depends on the report and the options only. Between two runs on the same
  report the surroundings can differ (what PyPI answers, since the network is asked at
  each run; the standard library and distribution tables): when the two library
  functions \<open>ast.unparse\<close> and \<open>textwrap.indent\<close> are the same in both runs, the two
  sources are equal. No set is iterated on the way to the source, and the dicts of the
  report are read in their insertion order.
\<close>

theorem isolate_source_deterministic:
  "try_unparse env1 = try_unparse env2 \<Longrightarrow> indent env1 = indent env2 \<Longrightarrow>
     source (fst (isolate_from_report self env1 r)) = source (fst (isolate_from_report self env2 r))"
proof -
  assume u: "try_unparse env1 = try_unparse env2" and i: "indent env1 = indent env2"
  have "unparse_or_fallback env1 d = unparse_or_fallback env2 d" for d
    by (simp only: unparse_or_fallback_def u)
  then have "unparse_or_fallback env1 = unparse_or_fallback env2" by (rule ext)
  then have defs: "collect_def_lines env1 ds = collect_def_lines env2 ds" for ds
    by (simp only: collect_def_lines_def)
  have hints: "with_typehints env1 th ls = with_typehints env2 th ls" for th ls
    by (simp only: with_typehints_def i)
  show ?thesis by (simp only: isolate_source defs hints)
qed

theorem isolate_source_deterministic_witness:
  "try_unparse example_env = try_unparse (example_env\<lparr>on_pypi := (\<lambda>n. False)\<rparr>)
   \<and> indent example_env = indent (example_env\<lparr>on_pypi := (\<lambda>n. False)\<rparr>)
   \<and> on_pypi example_env ''numpy'' \<noteq> on_pypi (example_env\<lparr>on_pypi := (\<lambda>n. False)\<rparr>) ''numpy''
   \<and> source (fst (isolate_from_report default_isolator example_env example_report))
       = source (fst (isolate_from_report default_isolator (example_env\<lparr>on_pypi := (\<lambda>n. False)\<rparr>) example_report))"
  using isolate_source_deterministic [of example_env "example_env\<lparr>on_pypi := (\<lambda>n. False)\<rparr>" default_isolator example_report]
  by (simp add: example_env_def)

section \<open>Star imports\<close>

lemma parse_submodule_dotted:
  "CHR ''.'' \<in> set m \<Longrightarrow>
     parse_submodule m = (takeWhile (\<lambda>c. c \<noteq> CHR ''.'') m, Some (tl (dropWhile (\<lambda>c. c \<noteq> CHR ''.'') m)))"
  by (simp add: parse_submodule_def split_dot1_def Let_def)

lemma parse_submodule_plain:
  "CHR ''.'' \<notin> set m \<Longrightarrow> parse_submodule m = (m, None)"
  by (simp add: parse_submodule_def split_dot1_def Let_def)

lemma split_at_dot:
  "CHR ''.'' \<in> set m \<Longrightarrow>
     takeWhile (\<lambda>c. c \<noteq> CHR ''.'') m @ ''.'' @ tl (dropWhile (\<lambda>c. c \<noteq> CHR ''.'') m) = m"
proof -
  assume "CHR ''.'' \<in> set m"
  then have ne: "dropWhile (\<lambda>c. c \<noteq> CHR ''.'') m \<noteq> []" by (simp add: dropWhile_eq_Nil_conv)
  then have "hd (dropWhile (\<lambda>c. c \<noteq> CHR ''.'') m) = CHR ''.''"
    using hd_dropWhile [of "\<lambda>c. c \<noteq> CHR ''.''" m] by simp
  with ne have "dropWhile (\<lambda>c. c \<noteq> CHR ''.'') m = CHR ''.'' # tl (dropWhile (\<lambda>c. c \<noteq> CHR ''.'') m)"
    by (cases "dropWhile (\<lambda>c. c \<noteq> CHR ''.'') m") simp_all
  then have "takeWhile (\<lambda>c. c \<noteq> CHR ''.'') m @ ''.'' @ tl (dropWhile (\<lambda>c. c \<noteq> CHR ''.'') m)
      = takeWhile (\<lambda>c. c \<noteq> CHR ''.'') m @ dropWhile (\<lambda>c. c \<noteq> CHR ''.'') m"
    by simp
  then show ?thesis by simp
qed

lemma star_alias_dotted: "CHR ''.'' \<in> set m \<Longrightarrow> star_alias m = ''*_'' @ m"
  using split_at_dot [of m] by (simp add: star_alias_def parse_submodule_dotted format_opt_def)

lemma star_alias_plain: "CHR ''.'' \<notin> set m \<Longrightarrow> star_alias m = ''*_'' @ m @ ''.None''"
  by (simp add: star_alias_def parse_submodule_plain format_opt_def)

lemma parse_submodule_None_suffix:
  "CHR ''.'' \<notin> set m \<Longrightarrow> snd (parse_submodule (m @ ''.None'')) = Some ''None''"
proof -
  assume nd: "CHR ''.'' \<notin> set m"
  then have all: "\<forall>c \<in> set m. c \<noteq> CHR ''.''" by auto
  have "dropWhile (\<lambda>c. c \<noteq> CHR ''.'') (m @ ''.None'') = ''.None''"
    using all by (simp add: dropWhile_append2)
  then show ?thesis by (simp add: parse_submodule_dotted)
qed

lemma star_alias_inj:
  assumes "snd (parse_submodule m) \<noteq> Some ''None''" "snd (parse_submodule m') \<noteq> Some ''None''"
    and "star_alias m' = star_alias m"
  shows "m' = m"
proof (cases "CHR ''.'' \<in> set m"; cases "CHR ''.'' \<in> set m'")
  assume "CHR ''.'' \<in> set m" "CHR ''.'' \<in> set m'"
  then show ?thesis using assms(3) by (simp add: star_alias_dotted)
next
  assume a: "CHR ''.'' \<in> set m" "CHR ''.'' \<notin> set m'"
  then have "m = m' @ ''.None''" using assms(3) by (simp add: star_alias_dotted star_alias_plain)
  then show ?thesis using assms(1) parse_submodule_None_suffix [OF a(2)] by simp
next
  assume a: "CHR ''.'' \<notin> set m" "CHR ''.'' \<in> set m'"
  then have "m' = m @ ''.None''" using assms(3) by (simp add: star_alias_dotted star_alias_plain)
  then show ?thesis using assms(2) parse_submodule_None_suffix [OF a(1)] by simp
next
  assume "CHR ''.'' \<notin> set m" "CHR ''.'' \<notin> set m'"
  then show ?thesis using assms(3) by (simp add: star_alias_plain)
qed

lemma visit_star:
  "m \<noteq> [] \<Longrightarrow>
     visit env st (ImportFrom (Some m) [Alias ''*'' None] lvl) =
       st\<lparr>imported_alias := imported_alias st @ [''*''],
          import_items := import_items st @
            [\<lparr>names = [(star_alias m, ''*'')],
              module = Some (fst (parse_submodule m)),
              package_name = package_name_of env (Some (fst (parse_submodule m))),
              submodule = snd (parse_submodule m),
              code = unparse env (ImportFrom (Some m) [Alias ''*'' None] lvl),
              level = Some lvl, is_dynamic = False, use_star = True\<rparr>]\<rparr>"
  by (simp add: visit_ImportFrom_def parse_alias_def bound_alias_def star_alias_def
      format_opt_def Let_def split: prod.splits)

text \<open>
  C5, as stated (the alias keeps star imports of different modules apart), fails: the
  alias is built from the module name only, so \<open>from m import *\<close> and the relative
  \<open>from .m import *\<close> get the same alias \<open>*_m.None\<close>, and in \<open>imported\<close> the second import
  replaces the first.
\<close>

theorem star_alias_relative_level_counterexample:
  "names (last (import_items (visit example_env collector_init (ImportFrom (Some ''m'') [Alias ''*'' None] 0))))
     = names (last (import_items (visit example_env collector_init (ImportFrom (Some ''m'') [Alias ''*'' None] 1))))
   \<and> level (last (import_items (visit example_env collector_init (ImportFrom (Some ''m'') [Alias ''*'' None] 0))))
     \<noteq> level (last (import_items (visit example_env collector_init (ImportFrom (Some ''m'') [Alias ''*'' None] 1))))
   \<and> map fst (imported (ImportCollector example_env
         (Module [ImportFrom (Some ''m'') [Alias ''*'' None] 0, ImportFrom (Some ''m'') [Alias ''*'' None] 1])))
     = [''*_m.None'']"
  by (simp add: ImportCollector_def imported_def visit_ImportFrom_def parse_alias_def bound_alias_def
      collector_init_def parse_submodule_def split_dot1_def format_opt_def Let_def)

text \<open>
  C5, amended: a statement \<open>from m import *\<close> (at any relative level) appends one item
  with \<open>use_star = True\<close> whose only alias is \<open>*_\<close>, the top-level segment of \<open>m\<close>, a dot
  and the sub-module path, with the text \<open>None\<close> for a missing path: \<open>*_m.s\<close> for the
  module \<open>m.s\<close>, and \<open>*_m.None\<close> for a single-segment \<open>m\<close>. Two module names get different
  aliases (unless the sub-module path of one of them is the text \<open>None\<close>, which no
  parsed module name has); the relative level is not part of the alias.
\<close>

theorem visit_ImportFrom_star_alias:
  "m \<noteq> [] \<Longrightarrow>
     visit env st (ImportFrom (Some m) [Alias ''*'' None] lvl) =
       st\<lparr>imported_alias := imported_alias st @ [''*''],
          import_items := import_items st @
            [\<lparr>names = [(star_alias m, ''*'')],
              module = Some (fst (parse_submodule m)),
              package_name = package_name_of env (Some (fst (parse_submodule m))),
              submodule = snd (parse_submodule m),
              code = unparse env (ImportFrom (Some m) [Alias ''*'' None] lvl),
              level = Some lvl, is_dynamic = False, use_star = True\<rparr>]\<rparr>
     \<and> star_alias m = ''*_'' @ (if CHR ''.'' \<in> set m then m else m @ ''.None'')
     \<and> (\<forall>m'. snd (parse_submodule m) \<noteq> Some ''None'' \<and> snd (parse_submodule m') \<noteq> Some ''None''
              \<and> star_alias m' = star_alias m \<longrightarrow> m' = m)"
  using visit_star [of m env st lvl] star_alias_inj [of m]
  by (auto simp: star_alias_dotted star_alias_plain)

theorem visit_ImportFrom_star_alias_witness:
  "''m.s'' \<noteq> []
   \<and> import_items (visit example_env collector_init (ImportFrom (Some ''m.s'') [Alias ''*'' None] 0)) =
       [\<lparr>names = [(''*_m.s'', ''*'')], module = Some ''m'', package_name = Some ''m'',
         submodule = Some ''s'', code = ''from m.s import *'', level = Some 0,
         is_dynamic = False, use_star = True\<rparr>]
   \<and> names (last (import_items (visit example_env collector_init (ImportFrom (Some ''math'') [Alias ''*'' None] 0))))
       = [(''*_math.None'', ''*'')]"
  using visit_ImportFrom_star_alias [of "''m.s''" example_env collector_init 0]
        visit_ImportFrom_star_alias [of "''math''" example_env collector_init 0]
  by (simp add: collector_init_def parse_submodule_def split_dot1_def package_name_of_def
      example_env_def unparse_simple_def unparse_alias_def Let_def)


section \<open>Dynamic imports\<close>

lemma parse_func_name_iff:
  "parse_func_name st e = (if is_dynamic_import_call (dynamic_ref st) e then Some e else None)"
  by (auto simp: parse_func_name_def is_dynamic_import_call_def call_target_name_def
      call_literal_def is_str_constant_def
      split: expr.splits list.splits py_constant.splits option.splits)

lemma package_keywords_snoc_pair:
  "package_keywords ms (kws @ [(a, v)]) =
     (if is_package_keyword (a, v)
      then (case v of Constant (StrConst p) \<Rightarrow> parse_submodule p | _ \<Rightarrow> package_keywords ms kws)
      else package_keywords ms kws)"
  by (induction ms kws rule: package_keywords.induct)
     (auto simp: is_package_keyword_def is_str_constant_def
       split: expr.splits py_constant.splits)

lemma package_keywords_snoc:
  "package_keywords ms (kws @ [kw]) =
     (if is_package_keyword kw
      then (case snd kw of Constant (StrConst p) \<Rightarrow> parse_submodule p | _ \<Rightarrow> package_keywords ms kws)
      else package_keywords ms kws)"
  using package_keywords_snoc_pair [of ms kws "fst kw" "snd kw"] by simp

lemma package_keywords_override:
  "package_keywords ms kws =
     (case filter is_package_keyword kws of
        [] \<Rightarrow> ms
      | kw # rest \<Rightarrow>
          (case snd (last (kw # rest)) of Constant (StrConst p) \<Rightarrow> parse_submodule p | _ \<Rightarrow> ms))"
proof (induction kws rule: rev_induct)
  case Nil
  then show ?case by simp
next
  case (snoc kw kws)
  show ?case
  proof (cases "is_package_keyword kw")
    case False
    then show ?thesis using snoc by (simp add: package_keywords_snoc)
  next
    case True
    then obtain p where p: "snd kw = Constant (StrConst p)"
      by (auto simp: is_package_keyword_def is_str_constant_def split: expr.splits py_constant.splits)
    have "filter is_package_keyword (kws @ [kw]) = filter is_package_keyword kws @ [kw]"
      using True by simp
    then show ?thesis using True p
      by (cases "filter is_package_keyword kws") (simp_all add: package_keywords_snoc)
  qed
qed


lemma call_literal_of_dynamic:
  "is_dynamic_import_call tracked e \<Longrightarrow> \<exists>lit. call_literal e = Some lit"
  by (auto simp: is_dynamic_import_call_def split: expr.splits option.splits)

lemma visit_Assign_cases:
  "visit env st (Assign [Name x] e) =
     (case (if is_dynamic_import_call (dynamic_ref st) e then call_literal e else None) of
        None \<Rightarrow> st
      | Some lit \<Rightarrow>
          st\<lparr>imported_alias := imported_alias st @ [x],
             import_items := import_items st @
               [\<lparr>names = [(x, lit)],
                 module = Some (fst (parse_submodule (case package_override e of None \<Rightarrow> lit | Some p \<Rightarrow> p))),
                 package_name = package_name_of env
                    (Some (fst (parse_submodule (case package_override e of None \<Rightarrow> lit | Some p \<Rightarrow> p)))),
                 submodule = snd (parse_submodule (case package_override e of None \<Rightarrow> lit | Some p \<Rightarrow> p)),
                 code = dedent env (unparse env (Assign [Name x] e)),
                 level = None, is_dynamic = True, use_star = False\<rparr>]\<rparr>)"
proof (cases "is_dynamic_import_call (dynamic_ref st) e")
  case False
  then have "parse_func_name st e = None" by (simp add: parse_func_name_iff)
  then have "visit env st (Assign [Name x] e) = st"
    by (cases e) (simp_all add: visit_Assign_def)
  with False show ?thesis by simp
next
  case True
  then obtain lit where lit: "call_literal e = Some lit" using call_literal_of_dynamic by blast
  then obtain f rest kws where e: "e = Call f (Constant (StrConst lit) # rest) kws"
    by (auto simp: call_literal_def split: expr.splits list.splits py_constant.splits)
  have pf: "parse_func_name st e = Some e" using True by (simp add: parse_func_name_iff)
  have ov: "package_keywords (parse_submodule lit) kws
              = parse_submodule (case package_override e of None \<Rightarrow> lit | Some p \<Rightarrow> p)"
    unfolding package_keywords_override e package_override_def
    by (auto split: list.splits expr.splits py_constant.splits
          simp: is_package_keyword_def is_str_constant_def)
  have "visit env st (Assign [Name x] e) =
          (case package_keywords (parse_submodule lit) kws of
             (module', submodule') \<Rightarrow>
               st\<lparr>imported_alias := imported_alias st @ [x],
                  import_items := import_items st @
                    [\<lparr>names = [(x, lit)], module = Some module',
                      package_name = package_name_of env (Some module'),
                      submodule = submodule', code = dedent env (unparse env (Assign [Name x] e)),
                      level = None, is_dynamic = True, use_star = False\<rparr>]\<rparr>)"
    using pf by (simp add: visit_Assign_def e)
  then show ?thesis using True lit by (simp add: ov case_prod_beta)
qed


lemmas collector_eval = visit_Assign_def parse_func_name_def is_str_constant_def
  parse_submodule_def split_dot1_def package_name_of_def collector_init_def
  example_env_def unparse_simple_def Let_def

text \<open>
  C6, as stated (the code field is the original statement source verbatim), fails: the
  collector receives the tree, not the text, and takes the code from \<open>ast.unparse\<close>. The
  statement \<open>_json = importlib.import_module("json")\<close>, written with double quotes, parses
  to the node below, and the code recorded for it has single quotes.
\<close>

theorem visit_Assign_code_unparsed_counterexample:
  "code (last (import_items (visit example_env collector_init
      (Assign [Name ''_json'']
         (Call (Attribute (Name ''importlib'') ''import_module'') [Constant (StrConst ''json'')] [])))))
     = ''_json = importlib.import_module('' @ [sq] @ ''json'' @ [sq] @ '')''
   \<and> code (last (import_items (visit example_env collector_init
      (Assign [Name ''_json'']
         (Call (Attribute (Name ''importlib'') ''import_module'') [Constant (StrConst ''json'')] [])))))
     \<noteq> ''_json = importlib.import_module('' @ [dq] @ ''json'' @ [dq] @ '')''"
  by (simp add: collector_eval sq_def dq_def)

text \<open>
  C6, amended: an assignment \<open>NAME = EXPR\<close> is recorded as a dynamic import if and only if
  \<open>EXPR\<close> is a call whose function name (identifier, or attribute of an attribute access)
  is a tracked import-machinery alias or contains \<open>__import__\<close> or \<open>import_module\<close>, and
  whose first positional argument is a string literal. In that case one item is appended:
  it maps \<open>NAME\<close> to the literal, its module and sub-module are parsed from the literal,
  or from the last keyword \<open>package=<string literal>\<close> when there is one, it has
  \<open>is_dynamic = True\<close>, and its code is the dedented \<open>ast.unparse\<close> rendering of the
  assignment node (not the original text).
\<close>

theorem visit_Assign_dynamic_import:
  "visit env st (Assign [Name x] e) =
     (case (if is_dynamic_import_call (dynamic_ref st) e then call_literal e else None) of
        None \<Rightarrow> st
      | Some lit \<Rightarrow>
          st\<lparr>imported_alias := imported_alias st @ [x],
             import_items := import_items st @
               [\<lparr>names = [(x, lit)],
                 module = Some (fst (parse_submodule (case package_override e of None \<Rightarrow> lit | Some p \<Rightarrow> p))),
                 package_name = package_name_of env
                    (Some (fst (parse_submodule (case package_override e of None \<Rightarrow> lit | Some p \<Rightarrow> p)))),
                 submodule = snd (parse_submodule (case package_override e of None \<Rightarrow> lit | Some p \<Rightarrow> p)),
                 code = dedent env (unparse env (Assign [Name x] e)),
                 level = None, is_dynamic = True, use_star = False\<rparr>]\<rparr>)
   \<and> (import_items (visit env st (Assign [Name x] e)) \<noteq> import_items st
        \<longleftrightarrow> is_dynamic_import_call (dynamic_ref st) e)"
proof (cases "is_dynamic_import_call (dynamic_ref st) e")
  case False
  then show ?thesis using visit_Assign_cases [of env st x e] by simp
next
  case True
  then obtain lit where "call_literal e = Some lit" using call_literal_of_dynamic by blast
  then show ?thesis using True visit_Assign_cases [of env st x e] by simp
qed

theorem visit_Assign_dynamic_import_witness:
  "import_items (visit example_env collector_init
      (Assign [Name ''pkgmod'']
         (Call (Attribute (Name ''importlib'') ''import_module'') [Constant (StrConst ''x'')]
            [(Some ''package'', Constant (StrConst ''a.b''))])))
     = [\<lparr>names = [(''pkgmod'', ''x'')], module = Some ''a'', package_name = Some ''a'',
         submodule = Some ''b'',
         code = ''pkgmod = importlib.import_module('' @ [sq] @ ''x'' @ [sq] @ '', package=''
                @ [sq] @ ''a.b'' @ [sq] @ '')'',
         level = None, is_dynamic = True, use_star = False\<rparr>]
   \<and> import_items (visit example_env collector_init
        (Assign [Name ''y''] (Call (Name ''load'') [Constant (StrConst ''json'')] []))) = []
   \<and> import_items (visit example_env collector_init
        (Assign [Name ''z''] (Call (Name ''__import__'') [Name ''name''] []))) = []"
  using visit_Assign_dynamic_import [of example_env collector_init "''pkgmod''"
          "Call (Attribute (Name ''importlib'') ''import_module'') [Constant (StrConst ''x'')]
            [(Some ''package'', Constant (StrConst ''a.b''))]"]
        visit_Assign_dynamic_import [of example_env collector_init "''y''"
          "Call (Name ''load'') [Constant (StrConst ''json'')] []"]
        visit_Assign_dynamic_import [of example_env collector_init "''z''"
          "Call (Name ''__import__'') [Name ''name''] []"]
  by (simp add: is_dynamic_import_call_def call_target_name_def call_literal_def
      package_override_def is_package_keyword_def is_str_constant_def
      parse_submodule_def split_dot1_def package_name_of_def collector_init_def
      example_env_def unparse_simple_def Let_def sq_def)

section \<open>Names defined in a source text\<close>

lemma bound_names_node:
  "bound_names s = node_names s \<union> \<Union> (bound_names ` set (child_nodes s))"
  by (cases s) auto

lemma walk_queue_names:
  "(\<exists>node \<in> set (walk_queue q). n \<in> node_names node) \<longleftrightarrow> n \<in> \<Union> (bound_names ` set q)"
proof (induction q rule: walk_queue.induct)
  case 1
  then show ?case by simp
next
  case (2 node todo)
  have "(\<exists>x \<in> set (walk_queue (node # todo)). n \<in> node_names x)
          \<longleftrightarrow> n \<in> node_names node \<or> (\<exists>x \<in> set (walk_queue (todo @ child_nodes node)). n \<in> node_names x)"
    by simp
  also have "\<dots> \<longleftrightarrow> n \<in> node_names node \<or> n \<in> \<Union> (bound_names ` set (todo @ child_nodes node))"
    using 2 by simp
  also have "\<dots> \<longleftrightarrow> n \<in> \<Union> (bound_names ` set (node # todo))"
    using bound_names_node [of node] by auto
  finally show ?case .
qed

lemma alias_loop_named:
  "obj_name obj = Some n \<Longrightarrow> alias_loop obj ns = Inr (n \<in> bound_alias ` set ns)"
  by (induction ns) auto

lemma node_step_named:
  "obj_name obj = Some n \<Longrightarrow> node_step obj node = Inr (n \<in> node_names node)"
  by (cases node) (auto simp: alias_loop_named name_check_def)

lemma walk_loop_named:
  "obj_name obj = Some n \<Longrightarrow>
     walk_loop obj nodes = Inr (\<exists>node \<in> set nodes. n \<in> node_names node)"
  by (induction nodes) (auto simp: node_step_named split: bool.splits)

text \<open>
  An object without \<open>__name__\<close>: the walk raises \<open>AttributeError\<close> as soon as it meets an
  import alias or a definition, and returns \<open>False\<close> when the tree has neither.
\<close>

lemma alias_loop_nameless:
  "obj_name obj = None \<Longrightarrow>
     alias_loop obj ns = (if ns \<noteq> [] then Inl AttributeError else Inr False)"
  by (cases ns) simp_all

lemma node_step_nameless:
  "obj_name obj = None \<Longrightarrow>
     node_step obj node = (if reads_name node then Inl AttributeError else Inr False)"
  by (cases node) (simp_all add: alias_loop_nameless name_check_def)

lemma walk_loop_nameless:
  "obj_name obj = None \<Longrightarrow>
     walk_loop obj nodes =
       (if \<exists>node \<in> set nodes. reads_name node then Inl AttributeError else Inr False)"
  by (induction nodes) (simp_all add: node_step_nameless)

lemma is_defined_in_source_nameless:
  "obj_name obj = None \<Longrightarrow>
     is_defined_in_source parse obj src =
       (case parse src of
          Inl e \<Rightarrow> if e = SyntaxError then Inr False else Inl e
        | Inr tree \<Rightarrow>
            if \<exists>node \<in> set (walk tree). reads_name node then Inl AttributeError else Inr False)"
  by (simp add: is_defined_in_source_def walk_loop_nameless split: sum.splits)

text \<open>
  C10, as stated (total and never raising for every object), fails: the function reads
  \<open>obj.__name__\<close> at each comparison, so for an object without that attribute (a callable
  such as a \<open>functools.partial\<close>) and a source with an import or a definition it raises
  \<open>AttributeError\<close>.
\<close>

theorem is_defined_in_source_no_name_counterexample:
  "is_defined_in_source (\<lambda>src. Inr (Module [Import [Alias ''os'' None]]))
     \<lparr>obj_name = None\<rparr> ''import os'' = Inl AttributeError"
  by (simp add: is_defined_in_source_def walk_def)

text \<open>
  C10, amended: for every object that has a \<open>__name__\<close> and every source string,
  \<open>is_defined_in_source\<close> returns \<open>False\<close> when parsing raises \<open>SyntaxError\<close>, and when the
  source parses it returns \<open>True\<close> exactly when the name occurs in the tree, at any
  nesting depth, as the name of a function or class definition or as the bound alias
  (\<open>asname\<close>, else \<open>name\<close>) of an import statement. Any other exception of the parser is
  not caught.
\<close>

theorem is_defined_in_source_named:
  "obj_name obj = Some n \<Longrightarrow>
     is_defined_in_source parse obj src =
       (case parse src of
          Inl e \<Rightarrow> if e = SyntaxError then Inr False else Inl e
        | Inr tree \<Rightarrow> Inr (n \<in> module_bound_names tree))"
proof -
  assume named: "obj_name obj = Some n"
  show ?thesis
  proof (cases "parse src")
    case (Inl e)
    then show ?thesis by (simp add: is_defined_in_source_def)
  next
    case (Inr tree)
    obtain body where tree: "tree = Module body" by (cases tree)
    have "walk_loop obj (walk tree) = Inr (n \<in> module_bound_names tree)"
      using walk_loop_named [OF named, of "walk_queue body"] walk_queue_names [of body n]
      by (simp add: walk_def module_bound_names_def tree)
    with Inr show ?thesis by (simp add: is_defined_in_source_def)
  qed
qed

theorem is_defined_in_source_named_witness:
  "obj_name \<lparr>obj_name = Some ''inner''\<rparr> = Some ''inner''
   \<and> is_defined_in_source
        (\<lambda>src. Inr (Module [Import [Alias ''math'' None],
                             FunctionDef ''outer'' [OtherStmt [ClassDef ''inner'' []]]]))
        \<lparr>obj_name = Some ''inner''\<rparr> ''...'' = Inr True
   \<and> is_defined_in_source
        (\<lambda>src. Inr (Module [ImportFrom (Some ''os'') [Alias ''path'' (Some ''ospath'')] 0]))
        \<lparr>obj_name = Some ''path''\<rparr> ''from os import path as ospath'' = Inr False
   \<and> is_defined_in_source (\<lambda>src. Inl SyntaxError) \<lparr>obj_name = Some ''f''\<rparr> ''def f('' = Inr False"
  using is_defined_in_source_named [of "\<lparr>obj_name = Some ''inner''\<rparr>" "''inner''"
          "\<lambda>src. Inr (Module [Import [Alias ''math'' None],
                             FunctionDef ''outer'' [OtherStmt [ClassDef ''inner'' []]]])" "''...''"]
        is_defined_in_source_named [of "\<lparr>obj_name = Some ''path''\<rparr>" "''path''"
          "\<lambda>src. Inr (Module [ImportFrom (Some ''os'') [Alias ''path'' (Some ''ospath'')] 0])"
          "''from os import path as ospath''"]
        is_defined_in_source_named [of "\<lparr>obj_name = Some ''f''\<rparr>" "''f''" "\<lambda>src. Inl SyntaxError" "''def f(''"]
  by (simp add: module_bound_names_def bound_alias_def)

end
